theory Spec2Isabelle
  imports Main "HOL-Library.Multiset" "HOL-Library.Sublist"
begin

section \<open>Errors and outcomes\<close>

text \<open>
  \<^verbatim>\<open>types/errors.ts\<close>: the error codes, and \<^verbatim>\<open>MitmError\<close> with its code and message
  (the \<^verbatim>\<open>details\<close> object is not modelled). Any other JavaScript exception (a Node
  file-system or spawn error) is a \<open>NodeError\<close> with its message.
\<close>

datatype ErrorCode =
    SESSION_NOT_FOUND | SESSION_INVALID_STATE | PROXY_ALREADY_RUNNING | PROXY_NOT_RUNNING
  | MITMDUMP_NOT_FOUND | MITMDUMP_START_FAILED | MITMDUMP_CRASHED | PORT_UNAVAILABLE
  | STATE_READ_FAILED | STATE_WRITE_FAILED
  | DATABASE_ERROR | QUERY_FAILED | ENTRY_NOT_FOUND
  | INVALID_ARGUMENT
  | INTERNAL_ERROR | TIMEOUT

datatype exn = MitmError ErrorCode string | NodeError string

text \<open>\<^verbatim>\<open>error instanceof Error ? error.message : String(error)\<close>\<close>

fun error_message :: "exn \<Rightarrow> string" where
  "error_message (MitmError c m) = m"
| "error_message (NodeError m) = m"

text \<open>
  The result of awaiting a promise: it resolves with a value, rejects with an error, or
  never settles (nothing resolves or rejects it, or the server process is gone).
\<close>

datatype 'a outcome = Returns 'a | Throws exn | NeverSettles

section \<open>Strings\<close>

text \<open>
  Strings are lists of 8-bit characters. \<open>toLowerCase\<close> lowers the ASCII letters,
  \<open>trim\<close> strips the ASCII white space (tab, line feed, vertical tab, form feed,
  carriage return, space) from both ends, \<open>includes_str\<close> is substring containment and
  \<open>split_on\<close> is \<^verbatim>\<open>String.prototype.split\<close> with a one-character separator.
\<close>

definition lower_char :: "char \<Rightarrow> char" where
  "lower_char c =
     (let n = (of_char c :: nat)
      in if 65 \<le> n \<and> n \<le> 90 then ''abcdefghijklmnopqrstuvwxyz'' ! (n - 65) else c)"

definition toLowerCase :: "string \<Rightarrow> string" where
  "toLowerCase s = map lower_char s"

fun includes_str :: "string \<Rightarrow> string \<Rightarrow> bool" where
  "includes_str [] p = (p = [])"
| "includes_str (c # cs) p = (prefix p (c # cs) \<or> includes_str cs p)"

definition is_space :: "char \<Rightarrow> bool" where
  "is_space c = ((of_char c :: nat) \<in> {9, 10, 11, 12, 13, 32})"

definition trim :: "string \<Rightarrow> string" where
  "trim s = rev (dropWhile is_space (rev (dropWhile is_space s)))"

fun split_on :: "char \<Rightarrow> string \<Rightarrow> string list" where
  "split_on sep [] = [[]]"
| "split_on sep (c # cs) =
     (if c = sep then [] # split_on sep cs
      else (case split_on sep cs of
              l # ls \<Rightarrow> (c # l) # ls
            | [] \<Rightarrow> [[c]]))"

text \<open>\<^verbatim>\<open>Array.prototype.join\<close>\<close>

fun join :: "string \<Rightarrow> string list \<Rightarrow> string" where
  "join sep [] = []"
| "join sep [l] = l"
| "join sep (l # l' # ls) = l @ sep @ join sep (l' # ls)"

definition newline :: char where
  "newline = CHR 0x0A"

text \<open>
  \<^verbatim>\<open>parseInt\<close> of a one-character string: the digit's value, or \<open>None\<close> for
  \<^verbatim>\<open>NaN\<close>.
\<close>

definition parseInt_char :: "char \<Rightarrow> int option" where
  "parseInt_char c =
     (let n = (of_char c :: nat) in if 48 \<le> n \<and> n \<le> 57 then Some (int (n - 48)) else None)"

text \<open>Decimal rendering of a number, as a template literal does.\<close>

fun show_nat :: "nat \<Rightarrow> string" where
  "show_nat n =
     (if n < 10 then [''0123456789'' ! n] else show_nat (n div 10) @ [''0123456789'' ! (n mod 10)])"

declare show_nat.simps [simp del]

definition show_int :: "int \<Rightarrow> string" where
  "show_int i = (if i < 0 then CHR ''-'' # show_nat (nat (- i)) else show_nat (nat i))"

section \<open>Traffic records\<close>

text \<open>\<^verbatim>\<open>interface JsonlEntry\<close> of \<^verbatim>\<open>traffic-store.ts\<close>. Numbers are integers.\<close>

record NameValue =
  nv_name :: string
  nv_value :: string

record JsonlRequest =
  req_method :: string
  req_url :: string
  req_host :: string
  req_path :: string
  req_httpVersion :: string
  req_headers :: "NameValue list"
  req_queryString :: "NameValue list"
  req_bodySize :: int
  req_body :: "string option"

record JsonlResponse =
  resp_status :: int
  resp_statusText :: string
  resp_httpVersion :: string
  resp_headers :: "NameValue list"
  resp_contentType :: string
  resp_bodySize :: int
  resp_body :: "string option"

record Timings =
  blocked :: int
  dns :: int
  connect :: int
  ssl :: int
  send :: int
  wait :: int
  receive :: int

record JsonlEntry =
  entry_id :: string
  timestamp :: string
  timestampMs :: int
  request :: JsonlRequest
  response :: JsonlResponse
  timings :: Timings
  serverIPAddress :: "string option"

text \<open>\<^verbatim>\<open>interface HarEntrySummary\<close> of \<^verbatim>\<open>types/har.ts\<close>.\<close>

record HarEntrySummary =
  sum_id :: string
  sum_timestamp :: string
  sum_method :: string
  sum_url :: string
  sum_requestBodySize :: int
  sum_status :: int
  sum_statusText :: string
  sum_mimeType :: string
  sum_responseBodySize :: int

text \<open>
  \<^verbatim>\<open>interface QueryOptions\<close>. \<open>offset\<close> and \<open>limit\<close> are natural numbers: the
  input schema admits integers with \<open>offset \<ge> 0\<close> and \<open>1 \<le> limit \<le> 500\<close>.
\<close>

record QueryOptions =
  startTimeMs :: "int option"
  endTimeMs :: "int option"
  urlPattern :: "string option"
  http_method :: "string option"  \<comment> \<open>the field \<^verbatim>\<open>method\<close>\<close>
  statusCode :: "int option"
  statusRange :: "string option"
  contentType :: "string option"
  limit :: nat
  offset :: nat
  includeBody :: bool

record QueryResult =
  entries :: "HarEntrySummary list"
  total :: nat

record TrafficStats =
  totalEntries :: nat
  totalRequestBytes :: int
  totalResponseBytes :: int
  entriesLast60s :: nat

text \<open>
  \<^verbatim>\<open>JSON.parse\<close> and \<^verbatim>\<open>JSON.stringify\<close> are functions of the host, at the type the
  source casts to: \<open>JSON_parse\<close> is \<open>None\<close> where \<^verbatim>\<open>JSON.parse\<close> throws.
\<close>

record JSON =
  JSON_parse :: "string \<Rightarrow> JsonlEntry option"
  JSON_stringify :: "JsonlEntry \<Rightarrow> string"

section \<open>Shared session state\<close>

text \<open>
  \<^verbatim>\<open>types/session.ts\<close>. \<open>android\<close> has the type \<^verbatim>\<open>unknown\<close>: it is any JSON
  value. The \<open>mitm\<close> object on disk is what the merge of \<^verbatim>\<open>updateMitm\<close> produces,
  cast to \<^verbatim>\<open>MitmState\<close> without a check, so each of its fields may be missing.
\<close>

datatype json =
    JNull | JBool bool | JNum int | JStr string | JArr "json list" | JObj "(string \<times> json) list"

datatype ProxyStatus = pending | starting | ready | stopped | error

datatype SessionStatus = active | stopping | session_stopped

record AndroidProxyConfig =
  cfg_host :: string
  cfg_port :: nat

record MitmState =
  mitm_status :: "ProxyStatus option"
  mitm_proxyPort :: "nat option"
  mitm_proxyHost :: "string option"
  mitm_pid :: "nat option"
  mitm_androidProxyConfig :: "AndroidProxyConfig option"
  mitm_error :: "string option"

record SessionState =
  doc_sessionId :: string
  doc_type :: string
  doc_status :: SessionStatus
  doc_createdAt :: string
  doc_stoppedAt :: "string option"
  doc_android :: "json option"
  doc_mitm :: "MitmState option"

text \<open>
  \<^verbatim>\<open>Partial<MitmState>\<close>, the argument of \<^verbatim>\<open>updateMitm\<close>: a key is absent
  (\<open>None\<close>), or present with a value, which may be \<^verbatim>\<open>undefined\<close> (\<open>Some None\<close>).
\<close>

record MitmPatch =
  patch_status :: "ProxyStatus option option"
  patch_proxyPort :: "nat option option"
  patch_proxyHost :: "string option option"
  patch_pid :: "nat option option"
  patch_androidProxyConfig :: "AndroidProxyConfig option option"
  patch_error :: "string option option"

text \<open>\<^verbatim>\<open>interface ProxySession\<close>: the session as the manager holds it in memory.\<close>

record ProxySession =
  sessionId :: string
  status :: ProxyStatus
  proxyPort :: nat
  proxyHost :: string
  pid :: "nat option"
  session_jsonlPath :: string
  logPath :: string
  startedAt :: "string option"
  stoppedAt :: "string option"

section \<open>The outside world\<close>

text \<open>
  Everything the process reaches through Node: the files (by path), the directories, the
  shared session documents (\<^verbatim>\<open>state.json\<close>, by session id, kept in parsed form),
  the processes alive in the operating system with the exit code and signal each reports
  when it terminates, the TCP ports free to bind, the clock, and the lines written by the
  logger.

  \<open>io\<close> is the fate of the successive fallible file-system calls: each call takes the
  head, \<open>Some msg\<close> makes it fail with that message, \<open>None\<close> (or an exhausted list)
  lets it go through. \<open>spawns\<close> is the fate of the successive \<^verbatim>\<open>spawn\<close> calls.

  \<open>unawaited\<close> holds the updates of the shared state that have been started and are
  awaited by nobody: the session and the fields of each. \<open>fatal\<close> is the message of the
  uncaught error that has brought the server process down, if one has (the source files
  install no handler for uncaught errors).
\<close>

datatype LogLevel = debug | info | warn | err

text \<open>
  What \<^verbatim>\<open>ProcessSupervisor.spawn\<close> meets: a child that is still running after the
  100 ms grace period; a \<^verbatim>\<open>child_process.spawn\<close> that throws; a child without pid,
  which Node reports by an \<^verbatim>\<open>error\<close> event on the next tick (so it does when the
  executable does not exist), with the message of that event; or a child that got a pid and
  exited with an exit code within the grace period.
\<close>

datatype SpawnOutcome =
    Spawned nat
  | SpawnThrows string
  | NoChild string
  | ExitedEarly nat int

record World =
  files :: "string \<Rightarrow> string option"
  dirs :: "string set"
  docs :: "string \<Rightarrow> SessionState option"
  io :: "string option list"
  spawns :: "SpawnOutcome list"
  alive :: "nat set"
  exitOf :: "nat \<Rightarrow> int option \<times> string option"
  freePorts :: "nat set"
  nowMs :: int
  nowIso :: string
  logs :: "(LogLevel \<times> string) list"
  unawaited :: "(string \<times> MitmPatch) list"
  fatal :: "string option"

text \<open>The logger: every call writes one line (its context object is left out).\<close>

definition logger :: "LogLevel \<Rightarrow> string \<Rightarrow> World \<Rightarrow> World" where
  "logger lvl msg w = w\<lparr>logs := logs w @ [(lvl, msg)]\<rparr>"

text \<open>The next fallible file-system call: its fate, and the world after it.\<close>

definition next_io :: "World \<Rightarrow> string option \<times> World" where
  "next_io w = (case io w of [] \<Rightarrow> (None, w) | f # fs \<Rightarrow> (f, w\<lparr>io := fs\<rparr>))"

text \<open>
  \<^verbatim>\<open>fs.promises.stat(path).size\<close>, \<^verbatim>\<open>fs.promises.readFile\<close> and
  \<^verbatim>\<open>fs.promises.writeFile\<close>. A missing file is the error \<open>ENOENT\<close>.
\<close>

datatype 'a fs_result = FsOk 'a | ENOENT | FsError string

definition fs_stat_size :: "string \<Rightarrow> World \<Rightarrow> nat fs_result \<times> World" where
  "fs_stat_size p w =
     (case next_io w of
        (Some msg, w') \<Rightarrow> (FsError msg, w')
      | (None, w') \<Rightarrow> (case files w' p of None \<Rightarrow> (ENOENT, w') | Some c \<Rightarrow> (FsOk (length c), w')))"

definition fs_readFile :: "string \<Rightarrow> World \<Rightarrow> string fs_result \<times> World" where
  "fs_readFile p w =
     (case next_io w of
        (Some msg, w') \<Rightarrow> (FsError msg, w')
      | (None, w') \<Rightarrow> (case files w' p of None \<Rightarrow> (ENOENT, w') | Some c \<Rightarrow> (FsOk c, w')))"

definition fs_writeFile :: "string \<Rightarrow> string \<Rightarrow> World \<Rightarrow> unit fs_result \<times> World" where
  "fs_writeFile p c w =
     (case next_io w of
        (Some msg, w') \<Rightarrow> (FsError msg, w')
      | (None, w') \<Rightarrow> (FsOk (), w'\<lparr>files := (files w')(p := Some c)\<rparr>))"

section \<open>TrafficStore\<close>

record TrafficStore =
  jsonlPath :: string
  store_entries :: "JsonlEntry list"
  lastReadPosition :: nat

definition new_TrafficStore :: "string \<Rightarrow> TrafficStore" where
  "new_TrafficStore p = \<lparr>jsonlPath = p, store_entries = [], lastReadPosition = 0\<rparr>"

text \<open>
  The loop of \<^verbatim>\<open>reloadEntries\<close>: each line is parsed on its own; a line that fails
  to parse is logged as a warning and skipped.
\<close>

fun parse_lines :: "JSON \<Rightarrow> string list \<Rightarrow> JsonlEntry list \<Rightarrow> World \<Rightarrow> JsonlEntry list \<times> World" where
  "parse_lines J [] acc w = (acc, w)"
| "parse_lines J (line # rest) acc w =
     (case JSON_parse J line of
        Some entry \<Rightarrow> parse_lines J rest (acc @ [entry]) w
      | None \<Rightarrow> parse_lines J rest acc (logger warn ''Failed to parse JSONL line'' w))"

definition file_lines :: "string \<Rightarrow> string list" where
  "file_lines content = filter (\<lambda>line. length line > 0) (split_on newline (trim content))"

definition reloadEntries :: "JSON \<Rightarrow> TrafficStore \<Rightarrow> World \<Rightarrow> unit outcome \<times> TrafficStore \<times> World" where
  "reloadEntries J st w =
     (case fs_stat_size (jsonlPath st) w of
        (FsError msg, w1) \<Rightarrow> (Throws (NodeError msg), st, w1)
      | (ENOENT, w1) \<Rightarrow> (Returns (), st, w1)
      | (FsOk fileSize, w1) \<Rightarrow>
          if fileSize \<le> lastReadPosition st then (Returns (), st, w1)
          else
            (case fs_readFile (jsonlPath st) w1 of
               (FsError msg, w2) \<Rightarrow> (Throws (NodeError msg), st, w2)
             | (ENOENT, w2) \<Rightarrow> (Returns (), st, w2)
             | (FsOk content, w2) \<Rightarrow>
                 (case parse_lines J (file_lines content) [] w2 of
                    (es, w3) \<Rightarrow>
                      (Returns (),
                       st\<lparr>store_entries := es, lastReadPosition := fileSize\<rparr>,
                       logger debug ''Reloaded entries'' w3))))"

text \<open>The filters of \<^verbatim>\<open>query\<close>, applied one after the other as the source does.\<close>

definition by_startTime :: "QueryOptions \<Rightarrow> JsonlEntry list \<Rightarrow> JsonlEntry list" where
  "by_startTime opts es =
     (case startTimeMs opts of
        None \<Rightarrow> es
      | Some s \<Rightarrow> filter (\<lambda>e. timestampMs e \<ge> s) es)"

definition by_endTime :: "QueryOptions \<Rightarrow> JsonlEntry list \<Rightarrow> JsonlEntry list" where
  "by_endTime opts es =
     (case endTimeMs opts of
        None \<Rightarrow> es
      | Some t \<Rightarrow> filter (\<lambda>e. timestampMs e \<le> t) es)"

definition by_urlPattern :: "QueryOptions \<Rightarrow> JsonlEntry list \<Rightarrow> JsonlEntry list" where
  "by_urlPattern opts es =
     (case urlPattern opts of
        None \<Rightarrow> es
      | Some p \<Rightarrow>
          if p = [] then es
          else (let pattern = toLowerCase p
                in filter (\<lambda>e. includes_str (toLowerCase (req_url (request e))) pattern) es))"

definition by_method :: "QueryOptions \<Rightarrow> JsonlEntry list \<Rightarrow> JsonlEntry list" where
  "by_method opts es =
     (case http_method opts of
        None \<Rightarrow> es
      | Some m \<Rightarrow> if m = [] then es else filter (\<lambda>e. req_method (request e) = m) es)"

definition by_statusCode :: "QueryOptions \<Rightarrow> JsonlEntry list \<Rightarrow> JsonlEntry list" where
  "by_statusCode opts es =
     (case statusCode opts of
        None \<Rightarrow> es
      | Some c \<Rightarrow> filter (\<lambda>e. resp_status (response e) = c) es)"

text \<open>
  \<^verbatim>\<open>parseInt(options.statusRange[0]) * 100\<close>: when the first character is no digit the
  bounds are \<^verbatim>\<open>NaN\<close>, both comparisons are false and no record passes.
\<close>

definition by_statusRange :: "QueryOptions \<Rightarrow> JsonlEntry list \<Rightarrow> JsonlEntry list" where
  "by_statusRange opts es =
     (case statusRange opts of
        None \<Rightarrow> es
      | Some [] \<Rightarrow> es
      | Some (c # _) \<Rightarrow>
          (case parseInt_char c of
             None \<Rightarrow> filter (\<lambda>e. False) es
           | Some n \<Rightarrow>
               (let rangeStart = n * 100;
                    rangeEnd = rangeStart + 99
                in filter (\<lambda>e. resp_status (response e) \<ge> rangeStart
                              \<and> resp_status (response e) \<le> rangeEnd) es)))"

definition by_contentType :: "QueryOptions \<Rightarrow> JsonlEntry list \<Rightarrow> JsonlEntry list" where
  "by_contentType opts es =
     (case contentType opts of
        None \<Rightarrow> es
      | Some t \<Rightarrow>
          if t = [] then es
          else (let ct = toLowerCase t
                in filter (\<lambda>e. includes_str (toLowerCase (resp_contentType (response e))) ct) es))"

definition apply_filters :: "QueryOptions \<Rightarrow> JsonlEntry list \<Rightarrow> JsonlEntry list" where
  "apply_filters opts es =
     by_contentType opts (by_statusRange opts (by_statusCode opts (by_method opts
       (by_urlPattern opts (by_endTime opts (by_startTime opts es))))))"

text \<open>
  \<^verbatim>\<open>filtered.sort((a, b) => b.timestampMs - a.timestampMs)\<close>: the comparator, and
  \<^verbatim>\<open>Array.prototype.sort\<close> as a stable sort by a comparator (an element goes before the
  first element it does not compare greater than).
\<close>

definition newest_first :: "JsonlEntry \<Rightarrow> JsonlEntry \<Rightarrow> int" where
  "newest_first a b = timestampMs b - timestampMs a"

fun insert_by :: "('a \<Rightarrow> 'a \<Rightarrow> int) \<Rightarrow> 'a \<Rightarrow> 'a list \<Rightarrow> 'a list" where
  "insert_by cmp x [] = [x]"
| "insert_by cmp x (y # ys) = (if cmp x y \<le> 0 then x # y # ys else y # insert_by cmp x ys)"

fun sort_by :: "('a \<Rightarrow> 'a \<Rightarrow> int) \<Rightarrow> 'a list \<Rightarrow> 'a list" where
  "sort_by cmp [] = []"
| "sort_by cmp (x # xs) = insert_by cmp x (sort_by cmp xs)"

text \<open>\<^verbatim>\<open>Array.prototype.slice(i, j)\<close> for \<open>0 \<le> i\<close> and \<open>0 \<le> j\<close>.\<close>

definition slice :: "nat \<Rightarrow> nat \<Rightarrow> 'a list \<Rightarrow> 'a list" where
  "slice i j xs = take (j - i) (drop i xs)"

definition toSummary :: "JsonlEntry \<Rightarrow> HarEntrySummary" where
  "toSummary e =
     \<lparr>sum_id = entry_id e,
      sum_timestamp = timestamp e,
      sum_method = req_method (request e),
      sum_url = req_url (request e),
      sum_requestBodySize = req_bodySize (request e),
      sum_status = resp_status (response e),
      sum_statusText = resp_statusText (response e),
      sum_mimeType = resp_contentType (response e),
      sum_responseBodySize = resp_bodySize (response e)\<rparr>"

definition query :: "JSON \<Rightarrow> QueryOptions \<Rightarrow> TrafficStore \<Rightarrow> World
    \<Rightarrow> QueryResult outcome \<times> TrafficStore \<times> World" where
  "query J opts st w =
     (case reloadEntries J st w of
        (Throws e, st1, w1) \<Rightarrow> (Throws e, st1, w1)
      | (NeverSettles, st1, w1) \<Rightarrow> (NeverSettles, st1, w1)
      | (Returns _, st1, w1) \<Rightarrow>
          (let filtered = sort_by newest_first (apply_filters opts (store_entries st1));
               total = length filtered;
               paginated = slice (offset opts) (offset opts + limit opts) filtered
           in (Returns \<lparr>entries = map toSummary paginated, total = total\<rparr>, st1, w1)))"

text \<open>\<^verbatim>\<open>initialize\<close>: creates the empty file when \<^verbatim>\<open>fs.promises.access\<close> fails.\<close>

definition fs_access :: "string \<Rightarrow> World \<Rightarrow> unit fs_result \<times> World" where
  "fs_access p w =
     (case next_io w of
        (Some msg, w') \<Rightarrow> (FsError msg, w')
      | (None, w') \<Rightarrow> (case files w' p of None \<Rightarrow> (ENOENT, w') | Some c \<Rightarrow> (FsOk (), w')))"

definition initialize :: "TrafficStore \<Rightarrow> World \<Rightarrow> unit outcome \<times> TrafficStore \<times> World" where
  "initialize st w =
     (case fs_access (jsonlPath st) w of
        (FsOk _, w1) \<Rightarrow> (Returns (), st, logger info ''Traffic store initialized'' w1)
      | (_, w1) \<Rightarrow>
          (case fs_writeFile (jsonlPath st) [] w1 of
             (FsOk _, w2) \<Rightarrow> (Returns (), st, logger info ''Traffic store initialized'' w2)
           | (ENOENT, w2) \<Rightarrow> (Throws (NodeError ''ENOENT''), st, w2)
           | (FsError msg, w2) \<Rightarrow> (Throws (NodeError msg), st, w2)))"

text \<open>\<^verbatim>\<open>interface HarEntry\<close> of \<^verbatim>\<open>types/har.ts\<close>, as \<^verbatim>\<open>getEntry\<close> fills it.\<close>

record HarRequest =
  har_req_method :: string
  har_req_url :: string
  har_req_httpVersion :: string
  har_req_headers :: "NameValue list"
  har_req_queryString :: "NameValue list"
  har_req_cookies :: "NameValue list"
  har_req_headersSize :: int
  har_req_bodySize :: int

record HarContent =
  content_size :: int
  content_mimeType :: string

record HarResponse =
  har_resp_status :: int
  har_resp_statusText :: string
  har_resp_httpVersion :: string
  har_resp_headers :: "NameValue list"
  har_resp_cookies :: "NameValue list"
  har_resp_content :: HarContent
  har_resp_redirectURL :: string
  har_resp_headersSize :: int
  har_resp_bodySize :: int

record HarEntry =
  har_id :: string
  har_timestamp :: string
  har_timestampMs :: int
  har_request :: HarRequest
  har_response :: HarResponse
  har_timings :: Timings
  har_serverIPAddress :: "string option"

record EntryResult =
  entry :: HarEntry
  requestBody :: "string option"
  responseBody :: "string option"



text \<open>
  \<^verbatim>\<open>clear\<close>: the retained records replace the cache, the file is rewritten from them
  and \<open>lastReadPosition\<close> becomes the size of the file.
\<close>

definition clear :: "JSON \<Rightarrow> int option \<Rightarrow> TrafficStore \<Rightarrow> World
    \<Rightarrow> nat outcome \<times> TrafficStore \<times> World" where
  "clear J beforeTimeMs st w =
     (case reloadEntries J st w of
        (Throws e, st1, w1) \<Rightarrow> (Throws e, st1, w1)
      | (NeverSettles, st1, w1) \<Rightarrow> (NeverSettles, st1, w1)
      | (Returns _, st1, w1) \<Rightarrow>
          (let originalCount = length (store_entries st1);
               st2 = st1\<lparr>store_entries :=
                       (case beforeTimeMs of
                          Some t \<Rightarrow> filter (\<lambda>e. timestampMs e \<ge> t) (store_entries st1)
                        | None \<Rightarrow> [])\<rparr>;
               cleared = originalCount - length (store_entries st2);
               content = join [newline] (map (JSON_stringify J) (store_entries st2))
           in (case fs_writeFile (jsonlPath st2)
                       (if content \<noteq> [] then content @ [newline] else []) w1 of
                 (FsError msg, w2) \<Rightarrow> (Throws (NodeError msg), st2, w2)
               | (ENOENT, w2) \<Rightarrow> (Throws (NodeError ''ENOENT''), st2, w2)
               | (FsOk _, w2) \<Rightarrow>
                   (case fs_stat_size (jsonlPath st2) w2 of
                      (FsError msg, w3) \<Rightarrow> (Throws (NodeError msg), st2, w3)
                    | (ENOENT, w3) \<Rightarrow> (Throws (NodeError ''ENOENT''), st2, w3)
                    | (FsOk fileSize, w3) \<Rightarrow>
                        (Returns cleared, st2\<lparr>lastReadPosition := fileSize\<rparr>, w3)))))"

text \<open>
  The records \<^verbatim>\<open>clear\<close> retains, and the text it writes for them:
  \<^verbatim>\<open>content ? content + '\n' : ''\<close>.
\<close>

definition kept_of :: "int option \<Rightarrow> JsonlEntry list \<Rightarrow> JsonlEntry list" where
  "kept_of T es = (case T of Some t \<Rightarrow> filter (\<lambda>e. timestampMs e \<ge> t) es | None \<Rightarrow> [])"

definition text_of :: "JSON \<Rightarrow> JsonlEntry list \<Rightarrow> string" where
  "text_of J es = 
     (let content = join [newline] (map (JSON_stringify J) es)
      in if content \<noteq> [] then content @ [newline] else [])"

text \<open>The loop of \<^verbatim>\<open>getStats\<close>, with its three running totals.\<close>

fun stats_loop :: "int \<Rightarrow> JsonlEntry list \<Rightarrow> int \<Rightarrow> int \<Rightarrow> nat \<Rightarrow> int \<times> int \<times> nat" where
  "stats_loop sixtySecondsAgo [] totalReq totalResp last60 = (totalReq, totalResp, last60)"
| "stats_loop sixtySecondsAgo (e # es) totalReq totalResp last60 =
     stats_loop sixtySecondsAgo es
       (totalReq + req_bodySize (request e))
       (totalResp + resp_bodySize (response e))
       (if timestampMs e \<ge> sixtySecondsAgo then last60 + 1 else last60)"

definition getStats :: "JSON \<Rightarrow> TrafficStore \<Rightarrow> World
    \<Rightarrow> TrafficStats outcome \<times> TrafficStore \<times> World" where
  "getStats J st w =
     (case reloadEntries J st w of
        (Throws e, st1, w1) \<Rightarrow> (Throws e, st1, w1)
      | (NeverSettles, st1, w1) \<Rightarrow> (NeverSettles, st1, w1)
      | (Returns _, st1, w1) \<Rightarrow>
          (let sixtySecondsAgo = nowMs w1 - 60000
           in (case stats_loop sixtySecondsAgo (store_entries st1) 0 0 0 of
                 (totalReq, totalResp, last60) \<Rightarrow>
                   (Returns \<lparr>totalEntries = length (store_entries st1),
                             totalRequestBytes = totalReq,
                             totalResponseBytes = totalResp,
                             entriesLast60s = last60\<rparr>,
                    st1, w1))))"

definition close :: "TrafficStore \<Rightarrow> World \<Rightarrow> unit outcome \<times> TrafficStore \<times> World" where
  "close st w =
     (Returns (), st\<lparr>store_entries := [], lastReadPosition := 0\<rparr>,
      logger info ''Traffic store closed'' w)"

section \<open>StateClient\<close>

text \<open>
  \<^verbatim>\<open>read\<close>: a missing document is \<open>SESSION_NOT_FOUND\<close>, any other failure of the
  read or of the parse is \<open>STATE_READ_FAILED\<close>.
\<close>

definition stateClient_read :: "string \<Rightarrow> World \<Rightarrow> SessionState outcome \<times> World" where
  "stateClient_read sid w =
     (case next_io w of
        (Some msg, w1) \<Rightarrow>
          (Throws (MitmError STATE_READ_FAILED (''Failed to read session state: '' @ msg)), w1)
      | (None, w1) \<Rightarrow>
          (case docs w1 sid of
             None \<Rightarrow>
               (Throws (MitmError SESSION_NOT_FOUND
                  (''Session not found: '' @ sid
                   @ ''. Create a session first with core.start_session()'')), w1)
           | Some d \<Rightarrow> (Returns d, w1)))"

text \<open>
  The object spread \<^verbatim>\<open>{ ...current.mitm, ...mitm }\<close>: a key of the patch replaces the
  current value, also when its value is \<^verbatim>\<open>undefined\<close>; a key the patch does not have
  keeps the current value. Spreading a missing \<open>mitm\<close> adds nothing.
\<close>

definition spread :: "'a option \<Rightarrow> 'a option option \<Rightarrow> 'a option" where
  "spread cur given = (case given of None \<Rightarrow> cur | Some v \<Rightarrow> v)"

definition no_mitm :: MitmState where
  "no_mitm =
     \<lparr>mitm_status = None, mitm_proxyPort = None, mitm_proxyHost = None, mitm_pid = None,
      mitm_androidProxyConfig = None, mitm_error = None\<rparr>"

definition merge_mitm :: "MitmState option \<Rightarrow> MitmPatch \<Rightarrow> MitmState" where
  "merge_mitm cur patch =
     (let c = (case cur of None \<Rightarrow> no_mitm | Some m \<Rightarrow> m)
      in \<lparr>mitm_status = spread (mitm_status c) (patch_status patch),
          mitm_proxyPort = spread (mitm_proxyPort c) (patch_proxyPort patch),
          mitm_proxyHost = spread (mitm_proxyHost c) (patch_proxyHost patch),
          mitm_pid = spread (mitm_pid c) (patch_pid patch),
          mitm_androidProxyConfig =
            spread (mitm_androidProxyConfig c) (patch_androidProxyConfig patch),
          mitm_error = spread (mitm_error c) (patch_error patch)\<rparr>)"

definition updateMitm :: "string \<Rightarrow> MitmPatch \<Rightarrow> World \<Rightarrow> SessionState outcome \<times> World" where
  "updateMitm sid mitm w =
     (case stateClient_read sid w of
        (Throws e, w1) \<Rightarrow> (Throws e, w1)
      | (NeverSettles, w1) \<Rightarrow> (NeverSettles, w1)
      | (Returns current, w1) \<Rightarrow>
          (let updated = current\<lparr>doc_mitm := Some (merge_mitm (doc_mitm current) mitm)\<rparr>
           in (case next_io w1 of
                 (Some msg, w2) \<Rightarrow>
                   (Throws (MitmError STATE_WRITE_FAILED
                      (''Failed to write session state: '' @ msg)), w2)
               | (None, w2) \<Rightarrow>
                   (Returns updated,
                    logger debug ''Updated mitm state''
                      (w2\<lparr>docs := (docs w2)(sid := Some updated)\<rparr>)))))"

text \<open>A patch with no key, to which the callers add theirs.\<close>

definition no_patch :: MitmPatch where
  "no_patch =
     \<lparr>patch_status = None, patch_proxyPort = None, patch_proxyHost = None, patch_pid = None,
      patch_androidProxyConfig = None, patch_error = None\<rparr>"

record Config =
  sessionsDir :: string
  mitmdumpPath :: string
  addonScriptPath :: string
  portRangeStart :: nat
  portRangeEnd :: nat

text \<open>
  \<^verbatim>\<open>path.join\<close> and \<^verbatim>\<open>path.normalize\<close> of Node on a POSIX system: the non-empty
  arguments are joined with \<open>/\<close>, and in the result empty segments and \<open>.\<close> are
  dropped and \<open>..\<close> removes the segment before it (above the start of a relative path it
  is kept, above the root it is dropped).
\<close>

fun normalizeString :: "bool \<Rightarrow> string list \<Rightarrow> string list \<Rightarrow> string list" where
  "normalizeString allowAboveRoot res [] = res"
| "normalizeString allowAboveRoot res (seg # segs) =
     (if seg = [] \<or> seg = ''.'' then normalizeString allowAboveRoot res segs
      else if seg = ''..''
        then (if res \<noteq> [] \<and> last res \<noteq> ''..''
              then normalizeString allowAboveRoot (butlast res) segs
              else if allowAboveRoot then normalizeString allowAboveRoot (res @ [seg]) segs
              else normalizeString allowAboveRoot res segs)
      else normalizeString allowAboveRoot (res @ [seg]) segs)"

definition path_normalize :: "string \<Rightarrow> string" where
  "path_normalize path =
     (if path = [] then ''.''
      else
        (let isAbsolute = (hd path = CHR ''/'');
             trailingSeparator = (last path = CHR ''/'');
             normalized = join ''/'' (normalizeString (\<not> isAbsolute) [] (split_on (CHR ''/'') path))
         in if normalized = []
            then (if isAbsolute then ''/'' else if trailingSeparator then ''./'' else ''.'')
            else (if isAbsolute then ''/'' else [])
                 @ normalized @ (if trailingSeparator then ''/'' else [])))"

definition path_join :: "string list \<Rightarrow> string" where
  "path_join args =
     (case filter (\<lambda>arg. arg \<noteq> []) args of
        [] \<Rightarrow> ''.''
      | parts \<Rightarrow> path_normalize (join ''/'' parts))"

definition getMitmDir :: "Config \<Rightarrow> string \<Rightarrow> string" where
  "getMitmDir cfg sid = path_join [sessionsDir cfg, sid, ''mitm'']"

definition ensureMitmDir :: "Config \<Rightarrow> string \<Rightarrow> World \<Rightarrow> string outcome \<times> World" where
  "ensureMitmDir cfg sid w =
     (case next_io w of
        (Some msg, w1) \<Rightarrow> (Throws (NodeError msg), w1)
      | (None, w1) \<Rightarrow>
          (Returns (getMitmDir cfg sid), w1\<lparr>dirs := insert (getMitmDir cfg sid) (dirs w1)\<rparr>))"

text \<open>
  \<^verbatim>\<open>Logger.registerSessionLog\<close>: the directory is made on a best-effort basis, a failure
  is swallowed. (The session log file itself is not modelled.)
\<close>

definition registerSessionLog :: "string \<Rightarrow> World \<Rightarrow> World" where
  "registerSessionLog logsDir w =
     (case next_io w of
        (Some msg, w1) \<Rightarrow> w1
      | (None, w1) \<Rightarrow> w1\<lparr>dirs := insert logsDir (dirs w1)\<rparr>)"

section \<open>PortFinder\<close>

text \<open>
  \<^verbatim>\<open>findAvailablePort\<close> probes the ports of the range in turn. A probe of a port
  above 65535 does not come to listen: \<^verbatim>\<open>server.listen\<close> throws a
  \<^verbatim>\<open>RangeError\<close>, which rejects the promise of the probe and so the search.
\<close>

definition bad_port_message :: "nat \<Rightarrow> string" where
  "bad_port_message port =
     ''options.port should be >= 0 and < 65536. Received type number ('' @ show_nat port @ '').''"

function findAvailablePort_from :: "nat set \<Rightarrow> nat \<Rightarrow> nat \<Rightarrow> nat option outcome" where
  "findAvailablePort_from free port endPort =
     (if port \<le> endPort
      then (if 65536 \<le> port then Throws (NodeError (bad_port_message port))
            else if port \<in> free then Returns (Some port)
            else findAvailablePort_from free (port + 1) endPort)
      else Returns None)"
  by pat_completeness auto
termination
  by (relation "measure (\<lambda>(free, port, endPort). Suc endPort - port)") auto

declare findAvailablePort_from.simps [simp del]

definition findAvailablePort :: "nat \<Rightarrow> nat \<Rightarrow> World \<Rightarrow> nat option outcome" where
  "findAvailablePort startPort endPort w = findAvailablePort_from (freePorts w) startPort endPort"

section \<open>ProxyManager\<close>

text \<open>
  The manager's session map and store map, and the supervisor's process table: for each
  pid it tracks, the session whose \<^verbatim>\<open>onExit\<close> callback the child was spawned with.
  A session object is shared by the map and the local variables of the methods, so a
  mutation of the object is an update of the map at its id.
\<close>

record ProxyManager =
  sessions :: "string \<Rightarrow> ProxySession option"
  trafficStores :: "string \<Rightarrow> TrafficStore option"
  processes :: "nat \<Rightarrow> string option"

record StartProxyInput =
  input_sessionId :: string
  input_port :: "nat option"
  input_listenHost :: "string option"

definition mutate_session :: "string \<Rightarrow> (ProxySession \<Rightarrow> ProxySession) \<Rightarrow> ProxyManager \<Rightarrow> ProxyManager" where
  "mutate_session sid f m = m\<lparr>sessions := (sessions m)(sid := map_option f (sessions m sid))\<rparr>"

text \<open>\<^verbatim>\<open>`Process exited with code ${code}, signal ${signal}`\<close>\<close>

definition exit_message :: "int option \<Rightarrow> string option \<Rightarrow> string" where
  "exit_message code signal =
     ''Process exited with code '' @ (case code of None \<Rightarrow> ''null'' | Some c \<Rightarrow> show_int c)
     @ '', signal '' @ (case signal of None \<Rightarrow> ''null'' | Some sg \<Rightarrow> sg)"

text \<open>
  \<^verbatim>\<open>handleProcessExit\<close>. The update of the shared state is started and not awaited:
  the handler returns with the update recorded as started. \<open>run_unawaited\<close> carries out
  the oldest update that has been started, with the \<^verbatim>\<open>catch\<close> handler attached to it.
\<close>

definition handleProcessExit :: "string \<Rightarrow> int option \<Rightarrow> string option \<Rightarrow> ProxyManager \<Rightarrow> World
    \<Rightarrow> ProxyManager \<times> World" where
  "handleProcessExit sid code signal m w =
     (let w1 = logger info ''Mitmdump process exited'' w
      in (case sessions m sid of
            None \<Rightarrow> (m, w1)
          | Some session \<Rightarrow>
              if status session = ready
              then (mutate_session sid (\<lambda>s. s\<lparr>status := error\<rparr>) m,
                    w1\<lparr>unawaited := unawaited w1 @
                         [(sid, no_patch\<lparr>patch_status := Some (Some error),
                                          patch_error := Some (Some (exit_message code signal))\<rparr>)]\<rparr>)
              else (m, w1)))"

definition run_unawaited :: "World \<Rightarrow> World" where
  "run_unawaited w =
     (case unawaited w of
        [] \<Rightarrow> w
      | (sid, patch) # rest \<Rightarrow>
          (case updateMitm sid patch (w\<lparr>unawaited := rest\<rparr>) of
             (Throws e, w1) \<Rightarrow> logger err ''Failed to update state after crash'' w1
           | (_, w1) \<Rightarrow> w1))"

text \<open>
  The \<^verbatim>\<open>exit\<close> handler that \<^verbatim>\<open>ProcessSupervisor.spawn\<close> registers on a child, with the
  \<^verbatim>\<open>onExit\<close> callback \<^verbatim>\<open>startProxy\<close> passes: the child is gone, the supervisor
  forgets it, and \<^verbatim>\<open>handleProcessExit\<close> runs for its session. (The stream to
  \<^verbatim>\<open>mitmdump.log\<close> is not modelled.)
\<close>

definition child_exit :: "nat \<Rightarrow> int option \<Rightarrow> string option \<Rightarrow> ProxyManager \<Rightarrow> World
    \<Rightarrow> ProxyManager \<times> World" where
  "child_exit p code signal m w =
     (let w0 = w\<lparr>alive := alive w - {p}\<rparr>
      in (case processes m p of
            None \<Rightarrow> (m, w0)
          | Some sid \<Rightarrow>
              handleProcessExit sid code signal (m\<lparr>processes := (processes m)(p := None)\<rparr>) w0))"

text \<open>
  \<^verbatim>\<open>ProcessSupervisor.spawn\<close>. When \<^verbatim>\<open>child_process.spawn\<close> throws, the promise
  is rejected with that error. When the child has no pid, the promise is rejected with
  \<^verbatim>\<open>Failed to spawn process\<close> and the method returns before it has attached a listener
  for the \<^verbatim>\<open>error\<close> event of the child: the event, emitted on the next tick, is
  unhandled and brings the server process down (\<open>fatal\<close>). A child that exits with an exit
  code within the grace period leaves the promise unsettled: the timer finds
  \<^verbatim>\<open>child.exitCode\<close> set and does not resolve, and nothing rejects. With no fate left,
  the executable is not found.
\<close>

definition supervisor_spawn :: "string \<Rightarrow> string \<Rightarrow> ProxyManager \<Rightarrow> World
    \<Rightarrow> nat outcome \<times> ProxyManager \<times> World" where
  "supervisor_spawn command sid m w =
     (case spawns w of
        [] \<Rightarrow>
          (Throws (NodeError (''Failed to spawn process: '' @ command)), m,
           w\<lparr>fatal := Some (''spawn '' @ command @ '' ENOENT'')\<rparr>)
      | SpawnThrows msg # rest \<Rightarrow> (Throws (NodeError msg), m, w\<lparr>spawns := rest\<rparr>)
      | NoChild msg # rest \<Rightarrow>
          (Throws (NodeError (''Failed to spawn process: '' @ command)), m,
           w\<lparr>spawns := rest, fatal := Some msg\<rparr>)
      | Spawned p # rest \<Rightarrow>
          (Returns p, m\<lparr>processes := (processes m)(p := Some sid)\<rparr>,
           w\<lparr>spawns := rest, alive := insert p (alive w)\<rparr>)
      | ExitedEarly p code # rest \<Rightarrow>
          (case child_exit p (Some code) None
                  (m\<lparr>processes := (processes m)(p := Some sid)\<rparr>) (w\<lparr>spawns := rest\<rparr>) of
             (m1, w1) \<Rightarrow> (NeverSettles, m1, w1)))"

text \<open>
  \<^verbatim>\<open>ProcessSupervisor.kill\<close>: a pid the supervisor does not track is only logged.
  Otherwise the child terminates on the signal, reporting the exit code and signal the world
  holds for it, and its \<^verbatim>\<open>exit\<close> handler runs before \<^verbatim>\<open>kill\<close> resolves.
\<close>

definition supervisor_kill :: "nat \<Rightarrow> ProxyManager \<Rightarrow> World \<Rightarrow> ProxyManager \<times> World" where
  "supervisor_kill p m w =
     (case processes m p of
        None \<Rightarrow> (m, logger warn ''Process not found for kill'' w)
      | Some _ \<Rightarrow> (case exitOf w p of (code, signal) \<Rightarrow> child_exit p code signal m w))"

text \<open>
  \<^verbatim>\<open>startProxy\<close>, in three parts: what precedes the \<^verbatim>\<open>try\<close> block (the checks, the
  port, the directory, the session object and the first publication), the body of the
  \<^verbatim>\<open>try\<close> block, and the whole with the \<^verbatim>\<open>catch\<close> clause. The \<^verbatim>\<open>catch\<close>
  clause marks the session and starts the update that publishes the error; when an
  uncaught error is due on the next tick, the server process ends before the read of that
  update completes: nothing is published and the call never settles.
\<close>

record StartContext =
  ctx_port :: nat
  ctx_listenHost :: string
  ctx_jsonlPath :: string

definition start_prepare :: "Config \<Rightarrow> StartProxyInput \<Rightarrow> ProxyManager \<Rightarrow> World
    \<Rightarrow> StartContext outcome \<times> ProxyManager \<times> World" where
  "start_prepare cfg input m w =
     (let sid = input_sessionId input
      in if (case sessions m sid of
               None \<Rightarrow> False
             | Some existing \<Rightarrow> status existing = ready \<or> status existing = starting)
         then (Throws (MitmError PROXY_ALREADY_RUNNING
                 (''Proxy already running for session: '' @ sid)), m, w)
         else
           (case stateClient_read sid w of
              (Throws e, w1) \<Rightarrow> (Throws e, m, w1)
            | (NeverSettles, w1) \<Rightarrow> (NeverSettles, m, w1)
            | (Returns sessionState, w1) \<Rightarrow>
                if doc_status sessionState \<noteq> active
                then (Throws (MitmError SESSION_INVALID_STATE
                        (''Session is not active: '' @ sid)), m, w1)
                else
                  (case (case input_port input of
                           None \<Rightarrow> findAvailablePort (portRangeStart cfg) (portRangeEnd cfg) w1
                         | Some p \<Rightarrow>
                             if p \<noteq> 0 then Returns (Some p)
                             else findAvailablePort (portRangeStart cfg) (portRangeEnd cfg) w1) of
                     Throws e \<Rightarrow> (Throws e, m, w1)
                   | NeverSettles \<Rightarrow> (NeverSettles, m, w1)
                   | Returns None \<Rightarrow>
                       (Throws (MitmError PORT_UNAVAILABLE
                          (''No available port in range '' @ show_nat (portRangeStart cfg)
                           @ ''-'' @ show_nat (portRangeEnd cfg))), m, w1)
                   | Returns (Some port) \<Rightarrow>
                       if port = 0
                       then (Throws (MitmError PORT_UNAVAILABLE
                               (''No available port in range '' @ show_nat (portRangeStart cfg)
                                @ ''-'' @ show_nat (portRangeEnd cfg))), m, w1)
                       else
                         (let listenHost =
                                (case input_listenHost input of
                                   None \<Rightarrow> ''0.0.0.0''
                                 | Some h \<Rightarrow> if h = [] then ''0.0.0.0'' else h)
                          in (case ensureMitmDir cfg sid w1 of
                                (Throws e, w2) \<Rightarrow> (Throws e, m, w2)
                              | (NeverSettles, w2) \<Rightarrow> (NeverSettles, m, w2)
                              | (Returns mitmDir, w2) \<Rightarrow>
                                  (let jsonlPath = path_join [mitmDir, ''traffic.jsonl''];
                                       logPath = path_join [mitmDir, ''mitmdump.log''];
                                       session =
                                         \<lparr>sessionId = sid, status = starting, proxyPort = port,
                                          proxyHost = listenHost, pid = None,
                                          session_jsonlPath = jsonlPath, logPath = logPath,
                                          startedAt = None, stoppedAt = None\<rparr>;
                                       m1 = m\<lparr>sessions := (sessions m)(sid := Some session)\<rparr>;
                                       w3 = registerSessionLog mitmDir w2
                                   in (case updateMitm sid
                                              (no_patch\<lparr>patch_status := Some (Some starting),
                                                        patch_proxyPort := Some (Some port),
                                                        patch_proxyHost := Some (Some listenHost)\<rparr>)
                                              w3 of
                                         (Throws e, w4) \<Rightarrow> (Throws e, m1, w4)
                                       | (NeverSettles, w4) \<Rightarrow> (NeverSettles, m1, w4)
                                       | (Returns _, w4) \<Rightarrow>
                                           (Returns \<lparr>ctx_port = port, ctx_listenHost = listenHost,
                                                     ctx_jsonlPath = jsonlPath\<rparr>, m1, w4))))))))"

definition start_attempt :: "Config \<Rightarrow> string \<Rightarrow> StartContext \<Rightarrow> ProxyManager \<Rightarrow> World
    \<Rightarrow> unit outcome \<times> ProxyManager \<times> World" where
  "start_attempt cfg sid ctx m w =
     (case initialize (new_TrafficStore (ctx_jsonlPath ctx)) w of
        (Throws e, trafficStore, w1) \<Rightarrow> (Throws e, m, w1)
      | (NeverSettles, trafficStore, w1) \<Rightarrow> (NeverSettles, m, w1)
      | (Returns _, trafficStore, w1) \<Rightarrow>
          (let m1 = m\<lparr>trafficStores := (trafficStores m)(sid := Some trafficStore)\<rparr>;
               w2 = logger info ''Starting mitmdump'' w1
           in (case supervisor_spawn (mitmdumpPath cfg) sid m1 w2 of
                 (Throws e, m2, w3) \<Rightarrow> (Throws e, m2, w3)
               | (NeverSettles, m2, w3) \<Rightarrow> (NeverSettles, m2, w3)
               | (Returns p, m2, w3) \<Rightarrow>
                   (let m3 = mutate_session sid
                               (\<lambda>s. s\<lparr>pid := Some p, status := ready,
                                       startedAt := Some (nowIso w3)\<rparr>) m2
                    in (case updateMitm sid
                               (no_patch\<lparr>patch_status := Some (Some ready),
                                         patch_proxyPort := Some (Some (ctx_port ctx)),
                                         patch_proxyHost := Some (Some (ctx_listenHost ctx)),
                                         patch_pid := Some (Some p),
                                         patch_androidProxyConfig :=
                                           Some (Some \<lparr>cfg_host = ''10.0.2.2'',
                                                       cfg_port = ctx_port ctx\<rparr>)\<rparr>)
                               w3 of
                          (Throws e, w4) \<Rightarrow> (Throws e, m3, w4)
                        | (NeverSettles, w4) \<Rightarrow> (NeverSettles, m3, w4)
                        | (Returns _, w4) \<Rightarrow>
                            (Returns (), m3, logger info ''Mitmdump started'' w4))))))"

definition startProxy :: "Config \<Rightarrow> StartProxyInput \<Rightarrow> ProxyManager \<Rightarrow> World
    \<Rightarrow> ProxySession option outcome \<times> ProxyManager \<times> World" where
  "startProxy cfg input m w =
     (let sid = input_sessionId input
      in (case start_prepare cfg input m w of
            (Throws e, m1, w1) \<Rightarrow> (Throws e, m1, w1)
          | (NeverSettles, m1, w1) \<Rightarrow> (NeverSettles, m1, w1)
          | (Returns ctx, m1, w1) \<Rightarrow>
              (case start_attempt cfg sid ctx m1 w1 of
                 (Returns _, m2, w2) \<Rightarrow> (Returns (sessions m2 sid), m2, w2)
               | (NeverSettles, m2, w2) \<Rightarrow> (NeverSettles, m2, w2)
               | (Throws cause, m2, w2) \<Rightarrow>
                   (let m3 = mutate_session sid (\<lambda>s. s\<lparr>status := error\<rparr>) m2
                    in if fatal w2 \<noteq> None then (NeverSettles, m3, w2)
                       else
                         (case updateMitm sid
                                 (no_patch\<lparr>patch_status := Some (Some error),
                                           patch_error := Some (Some (error_message cause))\<rparr>)
                                 w2 of
                            (Throws e, w3) \<Rightarrow> (Throws e, m3, w3)
                          | (NeverSettles, w3) \<Rightarrow> (NeverSettles, m3, w3)
                          | (Returns _, w3) \<Rightarrow>
                              (Throws (MitmError MITMDUMP_START_FAILED
                                 (''Failed to start mitmdump: '' @ error_message cause)),
                               m3, w3))))))"

text \<open>\<^verbatim>\<open>stopProxy\<close>, with its two first steps named after the comments of the source.\<close>

definition kill_the_process :: "ProxySession \<Rightarrow> ProxyManager \<Rightarrow> World \<Rightarrow> ProxyManager \<times> World" where
  "kill_the_process session m w =
     (case pid session of
        None \<Rightarrow> (m, w)
      | Some p \<Rightarrow> if p \<noteq> 0 \<and> p \<in> alive w then supervisor_kill p m w else (m, w))"

definition close_traffic_store :: "string \<Rightarrow> ProxyManager \<Rightarrow> World \<Rightarrow> ProxyManager \<times> World" where
  "close_traffic_store sid m w =
     (case trafficStores m sid of
        None \<Rightarrow> (m, w)
      | Some trafficStore \<Rightarrow>
          (case close trafficStore w of
             (_, _, w1) \<Rightarrow> (m\<lparr>trafficStores := (trafficStores m)(sid := None)\<rparr>, w1)))"

definition stopProxy :: "string \<Rightarrow> ProxyManager \<Rightarrow> World \<Rightarrow> unit outcome \<times> ProxyManager \<times> World" where
  "stopProxy sid m w =
     (case sessions m sid of
        None \<Rightarrow>
          (Throws (MitmError PROXY_NOT_RUNNING (''No proxy running for session: '' @ sid)), m, w)
      | Some session \<Rightarrow>
          (case kill_the_process session m (logger info ''Stopping proxy'' w) of
             (m1, w1) \<Rightarrow>
               (case close_traffic_store sid m1 w1 of
                  (m2, w2) \<Rightarrow>
                    (let m3 = mutate_session sid
                                (\<lambda>s. s\<lparr>status := stopped, stoppedAt := Some (nowIso w2)\<rparr>) m2
                     in (case updateMitm sid
                                (no_patch\<lparr>patch_status := Some (Some stopped),
                                          patch_pid := Some None\<rparr>)
                                w2 of
                           (Throws e, w3) \<Rightarrow> (Throws e, m3, w3)
                         | (NeverSettles, w3) \<Rightarrow> (NeverSettles, m3, w3)
                         | (Returns _, w3) \<Rightarrow>
                             (Returns (), m3\<lparr>sessions := (sessions m3)(sid := None)\<rparr>,
                              logger info ''Proxy stopped'' w3))))))"

section \<open>The status tool\<close>

text \<open>
  The handler of \<^verbatim>\<open>mitm.status\<close>: it returns the object it serialises with
  \<^verbatim>\<open>ok: true\<close>, or throws the \<^verbatim>\<open>MitmError\<close> it reports with \<^verbatim>\<open>ok: false\<close>. An
  exception that is no \<^verbatim>\<open>MitmError\<close> is reported as \<open>INTERNAL_ERROR\<close>.
\<close>

record StatusResponse =
  resp_sessionId :: string
  resp_proxyStatus :: ProxyStatus
  resp_proxyPort :: nat
  resp_proxyHost :: string
  resp_pid :: "nat option"
  resp_startedAt :: "string option"
  resp_stats :: TrafficStats

fun as_MitmError :: "exn \<Rightarrow> exn" where
  "as_MitmError (MitmError c msg) = MitmError c msg"
| "as_MitmError (NodeError msg) = MitmError INTERNAL_ERROR msg"

definition status_of :: "ProxySession \<Rightarrow> TrafficStats \<Rightarrow> StatusResponse" where
  "status_of session stats =
     \<lparr>resp_sessionId = sessionId session,
      resp_proxyStatus = status session,
      resp_proxyPort = proxyPort session,
      resp_proxyHost = proxyHost session,
      resp_pid = pid session,
      resp_startedAt = startedAt session,
      resp_stats = stats\<rparr>"

definition statusTool :: "JSON \<Rightarrow> string \<Rightarrow> ProxyManager \<Rightarrow> World
    \<Rightarrow> StatusResponse outcome \<times> ProxyManager \<times> World" where
  "statusTool J sid m w =
     (case sessions m sid of
        None \<Rightarrow>
          (Throws (as_MitmError
             (MitmError PROXY_NOT_RUNNING (''No proxy running for session: '' @ sid))), m, w)
      | Some session \<Rightarrow>
          (case trafficStores m sid of
             None \<Rightarrow>
               (Returns (status_of session
                  \<lparr>totalEntries = 0, totalRequestBytes = 0, totalResponseBytes = 0,
                   entriesLast60s = 0\<rparr>), m, w)
           | Some trafficStore \<Rightarrow>
               (case getStats J trafficStore w of
                  (Returns stats, trafficStore1, w1) \<Rightarrow>
                    (Returns (status_of session stats),
                     m\<lparr>trafficStores := (trafficStores m)(sid := Some trafficStore1)\<rparr>, w1)
                | (Throws e, trafficStore1, w1) \<Rightarrow>
                    (Throws (as_MitmError e),
                     m\<lparr>trafficStores := (trafficStores m)(sid := Some trafficStore1)\<rparr>, w1)
                | (NeverSettles, trafficStore1, w1) \<Rightarrow>
                    (NeverSettles,
                     m\<lparr>trafficStores := (trafficStores m)(sid := Some trafficStore1)\<rparr>, w1))))"

section \<open>JSON text of a record\<close>

text \<open>
  What the store needs of the host's JSON functions on a record \<open>e\<close>: the text of
  \<open>e\<close> is one non-empty line that neither starts nor ends with white space, and parsing
  it gives \<open>e\<close> back.
\<close>

definition single_line :: "string \<Rightarrow> bool" where
  "single_line s = (s \<noteq> [] \<and> newline \<notin> set s \<and> \<not> is_space (hd s) \<and> \<not> is_space (last s))"


text \<open>
  The compact text \<^verbatim>\<open>JSON.stringify\<close> gives for a record with the members of
  \<^verbatim>\<open>JsonlEntry\<close> in the order of the interface: strings quoted and escaped, numbers in
  decimal, members that are \<^verbatim>\<open>undefined\<close> left out.
\<close>

definition dquote :: char where
  "dquote = CHR 0x22"

definition backslash :: char where
  "backslash = CHR 0x5C"

definition hex_digit :: "nat \<Rightarrow> char" where
  "hex_digit n = ''0123456789abcdef'' ! n"

definition escape_char :: "char \<Rightarrow> string" where
  "escape_char c =
     (if c = dquote then [backslash, dquote]
      else if c = backslash then [backslash, backslash]
      else if c = CHR 0x08 then [backslash, CHR ''b'']
      else if c = CHR 0x0C then [backslash, CHR ''f'']
      else if c = CHR 0x0A then [backslash, CHR ''n'']
      else if c = CHR 0x0D then [backslash, CHR ''r'']
      else if c = CHR 0x09 then [backslash, CHR ''t'']
      else if (of_char c :: nat) < 32
        then [backslash, CHR ''u'', CHR ''0'', CHR ''0'',
              hex_digit ((of_char c :: nat) div 16), hex_digit ((of_char c :: nat) mod 16)]
      else [c])"

definition json_quote :: "string \<Rightarrow> string" where
  "json_quote s = dquote # concat (map escape_char s) @ [dquote]"

definition json_member :: "string \<Rightarrow> string \<Rightarrow> string" where
  "json_member k v = json_quote k @ '':'' @ v"

definition json_optional :: "string \<Rightarrow> string option \<Rightarrow> string list" where
  "json_optional k v = (case v of None \<Rightarrow> [] | Some s \<Rightarrow> [json_member k (json_quote s)])"

definition json_object :: "string list \<Rightarrow> string" where
  "json_object ms = ''{'' @ join '','' ms @ ''}''"

definition json_array :: "string list \<Rightarrow> string" where
  "json_array vs = ''['' @ join '','' vs @ '']''"

definition stringify_NameValue :: "NameValue \<Rightarrow> string" where
  "stringify_NameValue h =
     json_object [json_member ''name'' (json_quote (nv_name h)),
                  json_member ''value'' (json_quote (nv_value h))]"

definition stringify_request :: "JsonlRequest \<Rightarrow> string" where
  "stringify_request r = json_object
     ([json_member ''method'' (json_quote (req_method r)),
       json_member ''url'' (json_quote (req_url r)),
       json_member ''host'' (json_quote (req_host r)),
       json_member ''path'' (json_quote (req_path r)),
       json_member ''httpVersion'' (json_quote (req_httpVersion r)),
       json_member ''headers'' (json_array (map stringify_NameValue (req_headers r))),
       json_member ''queryString'' (json_array (map stringify_NameValue (req_queryString r))),
       json_member ''bodySize'' (show_int (req_bodySize r))]
      @ json_optional ''body'' (req_body r))"

definition stringify_response :: "JsonlResponse \<Rightarrow> string" where
  "stringify_response r = json_object
     ([json_member ''status'' (show_int (resp_status r)),
       json_member ''statusText'' (json_quote (resp_statusText r)),
       json_member ''httpVersion'' (json_quote (resp_httpVersion r)),
       json_member ''headers'' (json_array (map stringify_NameValue (resp_headers r))),
       json_member ''contentType'' (json_quote (resp_contentType r)),
       json_member ''bodySize'' (show_int (resp_bodySize r))]
      @ json_optional ''body'' (resp_body r))"

definition stringify_timings :: "Timings \<Rightarrow> string" where
  "stringify_timings t = json_object
     [json_member ''blocked'' (show_int (blocked t)),
      json_member ''dns'' (show_int (dns t)),
      json_member ''connect'' (show_int (connect t)),
      json_member ''ssl'' (show_int (ssl t)),
      json_member ''send'' (show_int (send t)),
      json_member ''wait'' (show_int (wait t)),
      json_member ''receive'' (show_int (receive t))]"

definition stringify_entry :: "JsonlEntry \<Rightarrow> string" where
  "stringify_entry e = json_object
     ([json_member ''id'' (json_quote (entry_id e)),
       json_member ''timestamp'' (json_quote (timestamp e)),
       json_member ''timestampMs'' (show_int (timestampMs e)),
       json_member ''request'' (stringify_request (request e)),
       json_member ''response'' (stringify_response (response e)),
       json_member ''timings'' (stringify_timings (timings e))]
      @ json_optional ''serverIPAddress'' (serverIPAddress e))"

text \<open>
  A parser that recognises the texts of a given list of records and rejects every other
  line, and the pair of this parser and \<open>stringify_entry\<close>.
\<close>

definition parse_known :: "JsonlEntry list \<Rightarrow> string \<Rightarrow> JsonlEntry option" where
  "parse_known known line = find (\<lambda>e. stringify_entry e = line) known"

definition sample_JSON :: "JsonlEntry list \<Rightarrow> JSON" where
  "sample_JSON known = \<lparr>JSON_parse = parse_known known, JSON_stringify = stringify_entry\<rparr>"

section \<open>Sample data\<close>

text \<open>
  A \<open>GET\<close> exchange with a given id, capture time and response status, and a world with
  one traffic log and no file-system fault pending.
\<close>

definition sample_entry :: "string \<Rightarrow> int \<Rightarrow> int \<Rightarrow> JsonlEntry" where
  "sample_entry i t s =
     \<lparr>entry_id = i,
      timestamp = ''2024-01-01T00:00:00.000Z'',
      timestampMs = t,
      request =
        \<lparr>req_method = ''GET'', req_url = ''https://api.example.com/items'',
         req_host = ''api.example.com'', req_path = ''/items'', req_httpVersion = ''HTTP/1.1'',
         req_headers = [], req_queryString = [], req_bodySize = 0, req_body = None\<rparr>,
      response =
        \<lparr>resp_status = s, resp_statusText = ''OK'', resp_httpVersion = ''HTTP/1.1'',
         resp_headers = [], resp_contentType = ''application/json'', resp_bodySize = 2,
         resp_body = None\<rparr>,
      timings = \<lparr>blocked = 0, dns = 0, connect = 0, ssl = 0, send = 0, wait = 0, receive = 0\<rparr>,
      serverIPAddress = None\<rparr>"

definition sample_world :: "(string \<Rightarrow> string option) \<Rightarrow> World" where
  "sample_world fs =
     \<lparr>files = fs, dirs = {}, docs = (\<lambda>_. None), io = [], spawns = [], alive = {},
      exitOf = (\<lambda>_. (None, None)), freePorts = {}, nowMs = 0, nowIso = [], logs = [],
      unawaited = [], fatal = None\<rparr>"

definition no_options :: QueryOptions where
  "no_options =
     \<lparr>startTimeMs = None, endTimeMs = None, urlPattern = None, http_method = None,
      statusCode = None, statusRange = None, contentType = None,
      limit = 50, offset = 0, includeBody = False\<rparr>"

definition sample_ten :: "JsonlEntry list" where
  "sample_ten =
     [sample_entry ''a'' 100 200, sample_entry ''b'' 300 404, sample_entry ''c'' 200 200,
      sample_entry ''d'' 1000 200, sample_entry ''e'' 900 500, sample_entry ''f'' 800 200,
      sample_entry ''g'' 700 200, sample_entry ''h'' 600 301, sample_entry ''i'' 500 200,
      sample_entry ''j'' 400 200]"

text \<open>Three records captured at 100, 300 and 200 ms, and a store that has them loaded.\<close>

definition sample_a :: JsonlEntry where
  "sample_a = sample_entry ''a'' 100 200"

definition sample_b :: JsonlEntry where
  "sample_b = sample_entry ''b'' 300 404"

definition sample_c :: JsonlEntry where
  "sample_c = sample_entry ''c'' 200 500"

definition sample_store :: TrafficStore where
  "sample_store =
     \<lparr>jsonlPath = ''traffic.jsonl'', store_entries = [sample_a, sample_b, sample_c],
      lastReadPosition = 0\<rparr>"

text \<open>
  A configuration, a shared document with a ready proxy, the session and manager that go
  with it, and worlds around them: one where the proxy runs, one where the second
  file-system call to come fails, one with a fresh session and no free port, and one where
  the spawn throws.
\<close>

definition sample_config :: Config where
  "sample_config =
     \<lparr>sessionsDir = ''/data/sessions'', mitmdumpPath = ''mitmdump'',
      addonScriptPath = ''har_capture.py'', portRangeStart = 8080, portRangeEnd = 8082\<rparr>"

definition sample_doc :: SessionState where
  "sample_doc =
     \<lparr>doc_sessionId = ''s1'', doc_type = ''android'', doc_status = active,
      doc_createdAt = ''2024-01-01T00:00:00.000Z'', doc_stoppedAt = None,
      doc_android = Some (JObj [(''avd'', JStr ''pixel'')]),
      doc_mitm = Some \<lparr>mitm_status = Some ready, mitm_proxyPort = Some 8080,
                        mitm_proxyHost = Some ''0.0.0.0'', mitm_pid = Some 4242,
                        mitm_androidProxyConfig = Some \<lparr>cfg_host = ''10.0.2.2'', cfg_port = 8080\<rparr>,
                        mitm_error = None\<rparr>\<rparr>"

definition sample_session :: ProxySession where
  "sample_session =
     \<lparr>sessionId = ''s1'', status = ready, proxyPort = 8080, proxyHost = ''0.0.0.0'',
      pid = Some 4242, session_jsonlPath = ''/data/sessions/s1/mitm/traffic.jsonl'',
      logPath = ''/data/sessions/s1/mitm/mitmdump.log'',
      startedAt = Some ''2024-01-01T00:00:05.000Z'', stoppedAt = None\<rparr>"

definition no_manager :: ProxyManager where
  "no_manager = \<lparr>sessions = (\<lambda>_. None), trafficStores = (\<lambda>_. None), processes = (\<lambda>_. None)\<rparr>"

definition sample_manager :: ProxyManager where
  "sample_manager =
     \<lparr>sessions = (\<lambda>_. None)(''s1'' := Some sample_session),
      trafficStores = (\<lambda>_. None)(''s1'' :=
        Some (new_TrafficStore ''/data/sessions/s1/mitm/traffic.jsonl'')),
      processes = (\<lambda>_. None)(4242 := Some ''s1'')\<rparr>"

definition running_world :: World where
  "running_world =
     (sample_world (\<lambda>_. None))
       \<lparr>docs := (\<lambda>_. None)(''s1'' := Some sample_doc), alive := {4242},
        exitOf := (\<lambda>_. (None, Some ''SIGTERM'')), nowIso := ''2024-01-01T00:10:00.000Z''\<rparr>"

definition faulty_world :: World where
  "faulty_world = running_world\<lparr>io := [None, Some ''EACCES: permission denied'']\<rparr>"

definition fresh_doc :: SessionState where
  "fresh_doc =
     \<lparr>doc_sessionId = ''s2'', doc_type = ''android'', doc_status = active,
      doc_createdAt = ''2024-01-01T00:00:00.000Z'', doc_stoppedAt = None,
      doc_android = None, doc_mitm = None\<rparr>"

definition fresh_world :: World where
  "fresh_world = (sample_world (\<lambda>_. None))\<lparr>docs := (\<lambda>_. None)(''s2'' := Some fresh_doc)\<rparr>"

definition failing_spawn_world :: World where
  "failing_spawn_world = fresh_world\<lparr>spawns := [SpawnThrows ''spawn E2BIG'']\<rparr>"

section \<open>Sorting and pagination\<close>

lemma mset_insert_by: "mset (insert_by cmp x xs) = add_mset x (mset xs)"
  by (induction xs) auto

lemma mset_sort_by: "mset (sort_by cmp xs) = mset xs"
  by (induction xs) (auto simp: mset_insert_by)

lemma set_insert_by: "set (insert_by cmp x xs) = insert x (set xs)"
  by (induction xs) auto

lemma length_sort_by: "length (sort_by cmp xs) = length xs"
  by (metis mset_sort_by size_mset)

lemma sorted_insert_newest_first:
  "sorted_wrt (\<lambda>a b. timestampMs a \<ge> timestampMs b) xs
     \<Longrightarrow> sorted_wrt (\<lambda>a b. timestampMs a \<ge> timestampMs b) (insert_by newest_first x xs)"
  by (induction xs) (auto simp: set_insert_by newest_first_def)

lemma sorted_sort_newest_first:
  "sorted_wrt (\<lambda>a b. timestampMs a \<ge> timestampMs b) (sort_by newest_first xs)"
  by (induction xs) (auto simp: sorted_insert_newest_first)

text \<open>The sort is stable: records with the same capture time keep the order of the file.\<close>

lemma filter_insert_newest_first:
  assumes "sorted_wrt (\<lambda>a b. timestampMs a \<ge> timestampMs b) xs"
  shows "filter (\<lambda>e. timestampMs e = k) (insert_by newest_first x xs) =
           (if timestampMs x = k then x # filter (\<lambda>e. timestampMs e = k) xs
            else filter (\<lambda>e. timestampMs e = k) xs)"
  using assms by (induction xs) (auto simp: newest_first_def)

lemma sort_newest_first_stable:
  "filter (\<lambda>e. timestampMs e = k) (sort_by newest_first xs) = filter (\<lambda>e. timestampMs e = k) xs"
  by (induction xs) (auto simp: filter_insert_newest_first sorted_sort_newest_first)

lemma slice_take_drop: "slice i (i + n) xs = take n (drop i xs)"
  by (simp add: slice_def)

lemma take3_drop3:
  assumes "length xs = 10"
  shows "take 3 (drop 3 xs) = [xs ! 3, xs ! 4, xs ! 5]"
proof (rule nth_equalityI)
  show "length (take 3 (drop 3 xs)) = length [xs ! 3, xs ! 4, xs ! 5]"
    using assms by simp
next
  fix i assume "i < length (take 3 (drop 3 xs))"
  then have "i = 0 \<or> i = 1 \<or> i = 2" using assms by auto
  then show "take 3 (drop 3 xs) ! i = [xs ! 3, xs ! 4, xs ! 5] ! i"
    using assms by auto
qed

section \<open>Reloading when nothing is to be read\<close>

lemma next_io_quiet: "io w = [] \<Longrightarrow> next_io w = (None, w)"
  by (simp add: next_io_def)

lemma reloadEntries_missing:
  "io w = [] \<Longrightarrow> files w (jsonlPath st) = None \<Longrightarrow> reloadEntries J st w = (Returns (), st, w)"
  by (simp add: reloadEntries_def fs_stat_size_def next_io_quiet)


section \<open>The query\<close>

text \<open>
  C1. Once the cache is loaded, \<open>query\<close> returns the summaries of the slice
  \<open>[offset, offset + limit)\<close> of the filtered records sorted by \<open>timestampMs\<close>, most
  recent first; the sorted sequence is a rearrangement of the filtered records; \<open>total\<close>
  is the number of filtered records before pagination. With 10 matching records,
  \<open>limit = 3\<close> and \<open>offset = 3\<close>, the entries are those of ranks 3, 4, 5 and
  \<open>total = 10\<close>.
\<close>

theorem query_sorted_paginated:
  assumes "reloadEntries J st w = (Returns (), st1, w1)"
  shows "query J opts st w =
           (Returns \<lparr>entries = map toSummary
                        (take (limit opts) (drop (offset opts)
                           (sort_by newest_first (apply_filters opts (store_entries st1))))),
                     total = length (apply_filters opts (store_entries st1))\<rparr>, st1, w1)
       \<and> sorted_wrt (\<lambda>a b. timestampMs a \<ge> timestampMs b)
            (sort_by newest_first (apply_filters opts (store_entries st1)))
       \<and> mset (sort_by newest_first (apply_filters opts (store_entries st1)))
           = mset (apply_filters opts (store_entries st1))
       \<and> (length (apply_filters opts (store_entries st1)) = 10 \<and> limit opts = 3 \<and> offset opts = 3
            \<longrightarrow> query J opts st w =
                  (Returns \<lparr>entries = map toSummary
                     [sort_by newest_first (apply_filters opts (store_entries st1)) ! 3,
                      sort_by newest_first (apply_filters opts (store_entries st1)) ! 4,
                      sort_by newest_first (apply_filters opts (store_entries st1)) ! 5],
                     total = 10\<rparr>, st1, w1))"
proof -
  let ?m = "apply_filters opts (store_entries st1)"
  let ?s = "sort_by newest_first ?m"
  have q: "query J opts st w =
           (Returns \<lparr>entries = map toSummary (take (limit opts) (drop (offset opts) ?s)),
                     total = length ?m\<rparr>, st1, w1)"
    using assms by (simp add: query_def Let_def slice_take_drop length_sort_by)
  have s: "sorted_wrt (\<lambda>a b. timestampMs a \<ge> timestampMs b) ?s"
    by (rule sorted_sort_newest_first)
  have m: "mset ?s = mset ?m"
    by (rule mset_sort_by)
  have p: "take 3 (drop 3 ?s) = [?s ! 3, ?s ! 4, ?s ! 5]" if "length ?m = 10"
    using that by (intro take3_drop3) (simp add: length_sort_by)
  show ?thesis using q s m p by auto
qed

theorem query_sorted_paginated_witness:
  "query (sample_JSON []) (no_options\<lparr>limit := 3, offset := 3\<rparr>)
      \<lparr>jsonlPath = ''traffic.jsonl'', store_entries = sample_ten, lastReadPosition = 0\<rparr>
      (sample_world (\<lambda>_. None))
   = (Returns \<lparr>entries = map toSummary
                  [sample_entry ''g'' 700 200, sample_entry ''h'' 600 301, sample_entry ''i'' 500 200],
               total = 10\<rparr>,
      \<lparr>jsonlPath = ''traffic.jsonl'', store_entries = sample_ten, lastReadPosition = 0\<rparr>,
      sample_world (\<lambda>_. None))"
proof -
  let ?st = "\<lparr>jsonlPath = ''traffic.jsonl'', store_entries = sample_ten, lastReadPosition = 0\<rparr>"
  let ?w = "sample_world (\<lambda>_. None)"
  have r: "reloadEntries (sample_JSON []) ?st ?w = (Returns (), ?st, ?w)"
    by (rule reloadEntries_missing) (simp_all add: sample_world_def)
  have f: "apply_filters (no_options\<lparr>limit := 3, offset := 3\<rparr>) sample_ten = sample_ten"
    by (simp add: apply_filters_def no_options_def by_startTime_def by_endTime_def
          by_urlPattern_def by_method_def by_statusCode_def by_statusRange_def by_contentType_def)
  have l: "length sample_ten = 10"
    by (simp add: sample_ten_def)
  have s: "sort_by newest_first sample_ten =
             [sample_entry ''d'' 1000 200, sample_entry ''e'' 900 500, sample_entry ''f'' 800 200,
              sample_entry ''g'' 700 200, sample_entry ''h'' 600 301, sample_entry ''i'' 500 200,
              sample_entry ''j'' 400 200, sample_entry ''b'' 300 404, sample_entry ''c'' 200 200,
              sample_entry ''a'' 100 200]"
    by (simp add: sample_ten_def newest_first_def sample_entry_def)
  show ?thesis
    using query_sorted_paginated [OF r, of "no_options\<lparr>limit := 3, offset := 3\<rparr>"]
    by (simp add: f s l)
qed

section \<open>The status filters\<close>

lemma parseInt_digit: "N \<le> 9 \<Longrightarrow> parseInt_char (''0123456789'' ! N) = Some (int N)"
proof -
  assume "N \<le> 9"
  then have "N \<in> {0, 1, 2, 3, 4, 5, 6, 7, 8, 9}" by auto
  then show ?thesis by (auto simp: parseInt_char_def)
qed

lemma by_statusRange_digit:
  assumes "N \<le> 9" and "statusRange opts = Some (''0123456789'' ! N # rest)"
  shows "by_statusRange opts es =
           filter (\<lambda>e. int N * 100 \<le> resp_status (response e)
                     \<and> resp_status (response e) \<le> int N * 100 + 99) es"
  using assms by (simp add: by_statusRange_def parseInt_digit Let_def)

lemma by_statusRange_None: "statusRange opts = None \<Longrightarrow> by_statusRange opts es = es"
  by (simp add: by_statusRange_def)

lemma by_statusCode_Some:
  "statusCode opts = Some c \<Longrightarrow> by_statusCode opts es = filter (\<lambda>e. resp_status (response e) = c) es"
  by (simp add: by_statusCode_def)

lemma by_contentType_filter: "by_contentType opts (filter P es) = filter P (by_contentType opts es)"
  by (auto simp: by_contentType_def Let_def conj_commute split: option.splits)

lemma by_contentType_Nil: "by_contentType opts [] = []"
  by (auto simp: by_contentType_def Let_def split: option.splits)

lemma apply_filters_statusRange:
  assumes "N \<le> 9" and "statusRange opts = Some (''0123456789'' ! N # rest)"
  shows "apply_filters opts es =
           filter (\<lambda>e. int N * 100 \<le> resp_status (response e)
                     \<and> resp_status (response e) \<le> int N * 100 + 99)
             (apply_filters (opts\<lparr>statusRange := None\<rparr>) es)"
proof -
  let ?o = "opts\<lparr>statusRange := None\<rparr>"
  have same: "by_startTime ?o = by_startTime opts" "by_endTime ?o = by_endTime opts"
    "by_urlPattern ?o = by_urlPattern opts" "by_method ?o = by_method opts"
    "by_statusCode ?o = by_statusCode opts" "by_contentType ?o = by_contentType opts"
    by (simp_all add: fun_eq_iff by_startTime_def by_endTime_def by_urlPattern_def by_method_def
          by_statusCode_def by_contentType_def)
  show ?thesis
    unfolding apply_filters_def same
    by (simp add: by_statusRange_digit [OF assms] by_statusRange_None by_contentType_filter)
qed

lemma apply_filters_disjoint:
  assumes "N \<le> 9" and "statusRange opts = Some (''0123456789'' ! N # rest)"
    and "statusCode opts = Some c" and "c < int N * 100 \<or> int N * 100 + 99 < c"
  shows "apply_filters opts es = []"
proof -
  let ?pre = "by_method opts (by_urlPattern opts (by_endTime opts (by_startTime opts es)))"
  have "by_statusRange opts (by_statusCode opts ?pre) = []"
    using assms(3,4)
    by (auto simp: by_statusRange_digit [OF assms(1,2)] by_statusCode_Some filter_empty_conv)
  then show ?thesis by (simp add: apply_filters_def by_contentType_Nil)
qed

lemma query_after_reload:
  assumes "reloadEntries J st w = (Returns (), st1, w1)"
  shows "query J opts st w =
           (Returns \<lparr>entries = map toSummary
                        (take (limit opts) (drop (offset opts)
                           (sort_by newest_first (apply_filters opts (store_entries st1))))),
                     total = length (apply_filters opts (store_entries st1))\<rparr>, st1, w1)"
  using assms by (simp add: query_def Let_def slice_take_drop length_sort_by)

text \<open>
  C6. With a \<open>statusRange\<close> whose first character is the digit \<open>N\<close> (as in \<open>Nxx\<close>),
  \<open>query\<close> counts and returns, of the records the other filters keep, exactly those with a
  response status in \<open>[N * 100, N * 100 + 99]\<close>; the filter is applied together with the
  exact \<open>statusCode\<close> filter, so when \<open>statusCode\<close> is a code outside that interval the
  query returns no entry and total 0, whatever the records.
\<close>

theorem statusRange_class_and_conjunction:
  assumes "N \<le> 9" and "statusRange opts = Some (''0123456789'' ! N # rest)"
    and "reloadEntries J st w = (Returns (), st1, w1)"
  shows "query J opts st w =
           (Returns \<lparr>entries = map toSummary
                        (take (limit opts) (drop (offset opts)
                           (sort_by newest_first
                              (filter (\<lambda>e. int N * 100 \<le> resp_status (response e)
                                        \<and> resp_status (response e) \<le> int N * 100 + 99)
                                 (apply_filters (opts\<lparr>statusRange := None\<rparr>) (store_entries st1)))))),
                     total = length
                        (filter (\<lambda>e. int N * 100 \<le> resp_status (response e)
                                   \<and> resp_status (response e) \<le> int N * 100 + 99)
                           (apply_filters (opts\<lparr>statusRange := None\<rparr>) (store_entries st1)))\<rparr>,
            st1, w1)
       \<and> (statusCode opts = Some c \<and> (c < int N * 100 \<or> int N * 100 + 99 < c)
            \<longrightarrow> query J opts st w = (Returns \<lparr>entries = [], total = 0\<rparr>, st1, w1))"
proof -
  note q = query_after_reload [OF assms(3), of opts]
  have a: "apply_filters opts (store_entries st1) =
             filter (\<lambda>e. int N * 100 \<le> resp_status (response e)
                       \<and> resp_status (response e) \<le> int N * 100 + 99)
               (apply_filters (opts\<lparr>statusRange := None\<rparr>) (store_entries st1))"
    by (rule apply_filters_statusRange [OF assms(1,2)])
  have b: "apply_filters opts (store_entries st1) = []"
    if "statusCode opts = Some c" "c < int N * 100 \<or> int N * 100 + 99 < c"
    by (rule apply_filters_disjoint [OF assms(1,2) that])
  show ?thesis
  proof (intro conjI impI)
    show "query J opts st w =
           (Returns \<lparr>entries = map toSummary
                        (take (limit opts) (drop (offset opts)
                           (sort_by newest_first
                              (filter (\<lambda>e. int N * 100 \<le> resp_status (response e)
                                        \<and> resp_status (response e) \<le> int N * 100 + 99)
                                 (apply_filters (opts\<lparr>statusRange := None\<rparr>) (store_entries st1)))))),
                     total = length
                        (filter (\<lambda>e. int N * 100 \<le> resp_status (response e)
                                   \<and> resp_status (response e) \<le> int N * 100 + 99)
                           (apply_filters (opts\<lparr>statusRange := None\<rparr>) (store_entries st1)))\<rparr>,
            st1, w1)"
      using q unfolding a .
  next
    assume h: "statusCode opts = Some c \<and> (c < int N * 100 \<or> int N * 100 + 99 < c)"
    then have "apply_filters opts (store_entries st1) = []"
      using b by blast
    then show "query J opts st w = (Returns \<lparr>entries = [], total = 0\<rparr>, st1, w1)"
      using q by simp
  qed
qed

theorem statusRange_class_and_conjunction_witness:
  "query (sample_JSON []) (no_options\<lparr>statusRange := Some ''4xx''\<rparr>)
     \<lparr>jsonlPath = ''traffic.jsonl'',
      store_entries = [sample_entry ''a'' 1 399, sample_entry ''b'' 2 400,
                       sample_entry ''c'' 3 499, sample_entry ''d'' 4 500],
      lastReadPosition = 0\<rparr>
     (sample_world (\<lambda>_. None))
   = (Returns \<lparr>entries = map toSummary [sample_entry ''c'' 3 499, sample_entry ''b'' 2 400],
               total = 2\<rparr>,
      \<lparr>jsonlPath = ''traffic.jsonl'',
       store_entries = [sample_entry ''a'' 1 399, sample_entry ''b'' 2 400,
                        sample_entry ''c'' 3 499, sample_entry ''d'' 4 500],
       lastReadPosition = 0\<rparr>,
      sample_world (\<lambda>_. None))
   \<and> query (sample_JSON []) (no_options\<lparr>statusCode := Some 200, statusRange := Some ''4xx''\<rparr>)
       \<lparr>jsonlPath = ''traffic.jsonl'', store_entries = sample_ten, lastReadPosition = 0\<rparr>
       (sample_world (\<lambda>_. None))
     = (Returns \<lparr>entries = [], total = 0\<rparr>,
        \<lparr>jsonlPath = ''traffic.jsonl'', store_entries = sample_ten, lastReadPosition = 0\<rparr>,
        sample_world (\<lambda>_. None))"
proof -
  let ?es = "[sample_entry ''a'' 1 399, sample_entry ''b'' 2 400, sample_entry ''c'' 3 499,
              sample_entry ''d'' 4 500]"
  let ?s4 = "\<lparr>jsonlPath = ''traffic.jsonl'', store_entries = ?es, lastReadPosition = 0\<rparr>"
  let ?st = "\<lparr>jsonlPath = ''traffic.jsonl'', store_entries = sample_ten, lastReadPosition = 0\<rparr>"
  let ?w = "sample_world (\<lambda>_. None)"
  let ?in = "\<lambda>e. int 4 * 100 \<le> resp_status (response e) \<and> resp_status (response e) \<le> int 4 * 100 + 99"
  have r4: "reloadEntries (sample_JSON []) ?s4 ?w = (Returns (), ?s4, ?w)"
    by (rule reloadEntries_missing) (simp_all add: sample_world_def)
  have r: "reloadEntries (sample_JSON []) ?st ?w = (Returns (), ?st, ?w)"
    by (rule reloadEntries_missing) (simp_all add: sample_world_def)
  have n: "(4::nat) \<le> 9" by simp
  have u: "apply_filters (no_options\<lparr>statusRange := Some ''4xx'', statusRange := None\<rparr>) ?es = ?es"
    by (simp add: apply_filters_def no_options_def by_startTime_def by_endTime_def
          by_urlPattern_def by_method_def by_statusCode_def by_statusRange_def by_contentType_def)
  have h: "statusRange (no_options\<lparr>statusRange := Some ''4xx''\<rparr>)
             = Some (''0123456789'' ! 4 # ''xx'')"
    by simp
  have f: "filter ?in ?es = [sample_entry ''b'' 2 400, sample_entry ''c'' 3 499]"
    by (simp add: sample_entry_def)
  have s: "sort_by newest_first [sample_entry ''b'' 2 400, sample_entry ''c'' 3 499]
             = [sample_entry ''c'' 3 499, sample_entry ''b'' 2 400]"
    by (simp add: newest_first_def sample_entry_def)
  have o: "limit (no_options\<lparr>statusRange := Some ''4xx''\<rparr>) = 50"
    "offset (no_options\<lparr>statusRange := Some ''4xx''\<rparr>) = 0"
    by (simp_all add: no_options_def)
  have "query (sample_JSON []) (no_options\<lparr>statusRange := Some ''4xx''\<rparr>) ?s4 ?w
          = (Returns \<lparr>entries = map toSummary [sample_entry ''c'' 3 499, sample_entry ''b'' 2 400],
                      total = 2\<rparr>, ?s4, ?w)"
    using statusRange_class_and_conjunction [OF n h r4, of 0, THEN conjunct1]
    unfolding TrafficStore.simps u f s o by simp
  moreover have "query (sample_JSON []) (no_options\<lparr>statusCode := Some 200, statusRange := Some ''4xx''\<rparr>)
                   ?st ?w = (Returns \<lparr>entries = [], total = 0\<rparr>, ?st, ?w)"
    using statusRange_class_and_conjunction
            [OF n _ r, of "no_options\<lparr>statusCode := Some 200, statusRange := Some ''4xx''\<rparr>" "''xx''" 200,
             THEN conjunct2]
    by simp
  ultimately show ?thesis by simp
qed

section \<open>Lines of the log file\<close>




lemma concat_lines_join:
  "ls \<noteq> [] \<Longrightarrow> concat (map (\<lambda>l. l @ [c]) ls) = join [c] ls @ [c]"
  by (induction ls rule: induct_list012) auto

lemma join_eq_Nil: "(\<forall>l \<in> set ls. l \<noteq> []) \<Longrightarrow> (join sep ls = []) = (ls = [])"
  by (induction ls rule: induct_list012) auto








section \<open>Reloading the cache\<close>









lemma reloadEntries_path:
  "reloadEntries J st w = (r, st1, w1) \<Longrightarrow> jsonlPath st1 = jsonlPath st"
  by (auto simp: reloadEntries_def split: prod.splits fs_result.splits if_splits)




section \<open>Rewriting the log\<close>

lemma clear_quiet:
  assumes "reloadEntries J st w = (Returns (), st1, w1)" and "io w1 = []"
  shows "clear J T st w =
           (Returns (length (store_entries st1) - length (kept_of T (store_entries st1))),
            st1\<lparr>store_entries := kept_of T (store_entries st1),
                lastReadPosition := length (text_of J (kept_of T (store_entries st1)))\<rparr>,
            w1\<lparr>files := (files w1)(jsonlPath st1 := Some (text_of J (kept_of T (store_entries st1))))\<rparr>)"
  using assms
  by (simp add: clear_def Let_def fs_writeFile_def fs_stat_size_def next_io_quiet next_io_def kept_of_def text_of_def)



lemma text_of_lines:
  assumes "\<forall>e \<in> set es. JSON_stringify J e \<noteq> []"
  shows "text_of J es = concat (map (\<lambda>e. JSON_stringify J e @ [newline]) es)"
proof (cases "es = []")
  case True
  then show ?thesis by (simp add: text_of_def)
next
  case False
  have ne: "\<forall>l \<in> set (map (JSON_stringify J) es). l \<noteq> []"
    using assms by simp
  have "join [newline] (map (JSON_stringify J) es) \<noteq> []"
    using join_eq_Nil [OF ne] False by simp
  moreover have "concat (map (\<lambda>l. l @ [newline]) (map (JSON_stringify J) es))
                   = join [newline] (map (JSON_stringify J) es) @ [newline]"
    using False by (intro concat_lines_join) simp
  ultimately show ?thesis by (simp add: text_of_def Let_def comp_def)
qed




section \<open>The JSON text is one line\<close>

lemma set_join: "set (join sep ls) \<subseteq> set sep \<union> \<Union> (set ` set ls)"
  by (induction ls rule: induct_list012) auto

lemma digit_not_newline: "n < 10 \<Longrightarrow> ''0123456789'' ! n \<noteq> newline"
proof -
  assume "n < 10"
  then have "''0123456789'' ! n \<in> set ''0123456789''"
    by (intro nth_mem) simp
  then show ?thesis by (auto simp: newline_def)
qed

lemma hex_digit_not_newline: "n < 16 \<Longrightarrow> hex_digit n \<noteq> newline"
proof -
  assume "n < 16"
  then have "''0123456789abcdef'' ! n \<in> set ''0123456789abcdef''"
    by (intro nth_mem) simp
  then show ?thesis by (auto simp: newline_def hex_digit_def)
qed

lemma show_nat_no_newline: "newline \<notin> set (show_nat n)"
proof (induction n rule: show_nat.induct)
  case (1 n)
  show ?case
  proof (cases "n < 10")
    case True
    then show ?thesis using digit_not_newline [of n] by (subst show_nat.simps) simp
  next
    case False
    have "n mod 10 < 10" by simp
    then have "''0123456789'' ! (n mod 10) \<noteq> newline" by (rule digit_not_newline)
    with 1 False show ?thesis by (subst show_nat.simps) simp
  qed
qed

lemma show_int_no_newline: "newline \<notin> set (show_int i)"
  by (simp add: show_int_def show_nat_no_newline) (simp add: newline_def)

lemma escape_char_no_newline: "newline \<notin> set (escape_char c)"
proof -
  have "(of_char c :: nat) div 16 < 16" if "(of_char c :: nat) < 32"
    using that by simp
  then show ?thesis
    using hex_digit_not_newline [of "of_char c div 16"] hex_digit_not_newline [of "of_char c mod 16"]
    by (auto simp: escape_char_def newline_def dquote_def backslash_def)
qed

lemma json_quote_no_newline: "newline \<notin> set (json_quote s)"
  using escape_char_no_newline by (auto simp: json_quote_def newline_def dquote_def)

lemma json_member_no_newline: "newline \<notin> set v \<Longrightarrow> newline \<notin> set (json_member k v)"
  using json_quote_no_newline [of k] by (simp add: json_member_def) (simp add: newline_def)

lemma json_optional_no_newline: "l \<in> set (json_optional k v) \<Longrightarrow> newline \<notin> set l"
  by (auto simp: json_optional_def json_member_no_newline json_quote_no_newline split: option.splits)

lemma join_comma_no_newline:
  assumes "\<forall>l \<in> set ls. newline \<notin> set l"
  shows "newline \<notin> set (join '','' ls)"
proof
  assume "newline \<in> set (join '','' ls)"
  then have "newline \<in> set '','' \<union> \<Union> (set ` set ls)"
    using set_join by blast
  then show False using assms by (auto simp: newline_def)
qed

lemma json_object_no_newline:
  "\<forall>l \<in> set ms. newline \<notin> set l \<Longrightarrow> newline \<notin> set (json_object ms)"
  using join_comma_no_newline [of ms] by (simp add: json_object_def) (simp add: newline_def)

lemma json_array_no_newline:
  "\<forall>l \<in> set vs. newline \<notin> set l \<Longrightarrow> newline \<notin> set (json_array vs)"
  using join_comma_no_newline [of vs] by (simp add: json_array_def) (simp add: newline_def)

lemma stringify_NameValue_no_newline: "newline \<notin> set (stringify_NameValue h)"
  unfolding stringify_NameValue_def
  by (intro json_object_no_newline) (simp add: json_member_no_newline json_quote_no_newline)

lemma headers_no_newline: "newline \<notin> set (json_array (map stringify_NameValue hs))"
  by (intro json_array_no_newline) (simp add: stringify_NameValue_no_newline)

lemma stringify_request_no_newline: "newline \<notin> set (stringify_request r)"
  unfolding stringify_request_def
  by (intro json_object_no_newline)
     (auto simp: json_member_no_newline json_quote_no_newline headers_no_newline
        show_int_no_newline dest: json_optional_no_newline)

lemma stringify_response_no_newline: "newline \<notin> set (stringify_response r)"
  unfolding stringify_response_def
  by (intro json_object_no_newline)
     (auto simp: json_member_no_newline json_quote_no_newline headers_no_newline
        show_int_no_newline dest: json_optional_no_newline)

lemma stringify_timings_no_newline: "newline \<notin> set (stringify_timings t)"
  unfolding stringify_timings_def
  by (intro json_object_no_newline) (simp add: json_member_no_newline show_int_no_newline)

lemma stringify_entry_no_newline: "newline \<notin> set (stringify_entry e)"
  unfolding stringify_entry_def
  by (intro json_object_no_newline)
     (auto simp: json_member_no_newline json_quote_no_newline show_int_no_newline
        stringify_request_no_newline stringify_response_no_newline stringify_timings_no_newline
        dest: json_optional_no_newline)

lemma json_object_ends: "json_object ms \<noteq> [] \<and> hd (json_object ms) = CHR ''{'' \<and> last (json_object ms) = CHR ''}''"
  by (simp add: json_object_def)

lemma single_line_stringify_entry: "single_line (stringify_entry e)"
  using json_object_ends stringify_entry_no_newline [of e]
  by (simp add: single_line_def stringify_entry_def is_space_def)




lemma sample_reload:
  "reloadEntries J sample_store (sample_world (\<lambda>_. None)) = (Returns (), sample_store, sample_world (\<lambda>_. None))"
  by (rule reloadEntries_missing) (simp_all add: sample_world_def)

lemma sample_times:
  "timestampMs sample_a = 100" "timestampMs sample_b = 300" "timestampMs sample_c = 200"
  by (simp_all add: sample_a_def sample_b_def sample_c_def sample_entry_def)

section \<open>Tolerant reload\<close>



section \<open>Clearing\<close>

text \<open>
  C2. Once the cache is loaded and the write goes through, \<open>clear\<close> without a threshold
  removes every record and leaves an empty file; \<open>clear\<close> with the threshold \<open>t\<close>
  retains, in the cache and in the file, exactly the records with \<open>timestampMs \<ge> t\<close>,
  and returns the number of records with \<open>timestampMs < t\<close>. The file holds the text of
  each retained record followed by a line feed, so it is empty exactly when nothing is
  retained, and \<open>lastReadPosition\<close> is the length of the file.
\<close>

theorem clear_retains_from_threshold:
  assumes "reloadEntries J st w = (Returns (), st1, w1)" and "io w1 = []"
    and "\<forall>e \<in> set (store_entries st1). JSON_stringify J e \<noteq> []"
  shows "clear J None st w =
           (Returns (length (store_entries st1)),
            st1\<lparr>store_entries := [], lastReadPosition := 0\<rparr>,
            w1\<lparr>files := (files w1)(jsonlPath st := Some [])\<rparr>)
       \<and> clear J (Some t) st w =
           (Returns (length (filter (\<lambda>e. timestampMs e < t) (store_entries st1))),
            st1\<lparr>store_entries := filter (\<lambda>e. timestampMs e \<ge> t) (store_entries st1),
                lastReadPosition :=
                  length (concat (map (\<lambda>e. JSON_stringify J e @ [newline])
                                   (filter (\<lambda>e. timestampMs e \<ge> t) (store_entries st1))))\<rparr>,
            w1\<lparr>files := (files w1)(jsonlPath st :=
                  Some (concat (map (\<lambda>e. JSON_stringify J e @ [newline])
                                  (filter (\<lambda>e. timestampMs e \<ge> t) (store_entries st1)))))\<rparr>)
       \<and> (concat (map (\<lambda>e. JSON_stringify J e @ [newline])
                     (filter (\<lambda>e. timestampMs e \<ge> t) (store_entries st1))) = []
            \<longleftrightarrow> filter (\<lambda>e. timestampMs e \<ge> t) (store_entries st1) = [])"
proof -
  let ?es = "store_entries st1"
  let ?k = "filter (\<lambda>e. timestampMs e \<ge> t) ?es"
  have p: "jsonlPath st1 = jsonlPath st"
    using assms(1) by (rule reloadEntries_path)
  have none: "kept_of None ?es = []" and some: "kept_of (Some t) ?es = ?k"
    by (simp_all add: kept_of_def)
  have t0: "text_of J [] = []"
    by (simp add: text_of_def)
  have tk: "text_of J ?k = concat (map (\<lambda>e. JSON_stringify J e @ [newline]) ?k)"
    using assms(3) by (intro text_of_lines) simp
  have "length ?es = length ?k + length (filter (\<lambda>e. \<not> timestampMs e \<ge> t) ?es)"
    by (rule sum_length_filter_compl [symmetric])
  then have n: "length ?es - length ?k = length (filter (\<lambda>e. timestampMs e < t) ?es)"
    by (simp add: not_le)
  have a: "clear J None st w =
           (Returns (length ?es), st1\<lparr>store_entries := [], lastReadPosition := 0\<rparr>,
            w1\<lparr>files := (files w1)(jsonlPath st := Some [])\<rparr>)"
    using clear_quiet [OF assms(1,2), of None] by (simp add: none t0 p)
  have b: "clear J (Some t) st w =
           (Returns (length (filter (\<lambda>e. timestampMs e < t) ?es)),
            st1\<lparr>store_entries := ?k,
                lastReadPosition := length (concat (map (\<lambda>e. JSON_stringify J e @ [newline]) ?k))\<rparr>,
            w1\<lparr>files := (files w1)(jsonlPath st :=
                  Some (concat (map (\<lambda>e. JSON_stringify J e @ [newline]) ?k)))\<rparr>)"
    using clear_quiet [OF assms(1,2), of "Some t"] by (simp add: some tk p n)
  have c: "(concat (map (\<lambda>e. JSON_stringify J e @ [newline]) ?k) = []) = (?k = [])"
    by (cases ?k) simp_all
  show ?thesis using a b c by blast
qed

theorem clear_retains_from_threshold_witness:
  "clear (sample_JSON []) (Some 200) sample_store (sample_world (\<lambda>_. None)) =
     (Returns 1,
      sample_store\<lparr>store_entries := [sample_b, sample_c],
        lastReadPosition := length (stringify_entry sample_b @ [newline] @ stringify_entry sample_c @ [newline])\<rparr>,
      (sample_world (\<lambda>_. None))\<lparr>files := (\<lambda>_. None)(''traffic.jsonl'' :=
          Some (stringify_entry sample_b @ [newline] @ stringify_entry sample_c @ [newline]))\<rparr>)"
proof -
  have q: "io (sample_world (\<lambda>_. None)) = []"
    by (simp add: sample_world_def)
  have ne: "\<forall>e \<in> set (store_entries sample_store). JSON_stringify (sample_JSON []) e \<noteq> []"
    using single_line_stringify_entry by (simp add: sample_JSON_def single_line_def)
  show ?thesis
    using clear_retains_from_threshold [OF sample_reload q ne, of 200]
    by (simp add: sample_store_def sample_times sample_JSON_def sample_world_def)
qed



section \<open>Reading and updating the shared state\<close>

lemma next_io_docs:
  "next_io w = (f, w') \<Longrightarrow> docs w' = docs w \<and> files w' = files w \<and> alive w' = alive w \<and> dirs w' = dirs w \<and> nowIso w' = nowIso w"
  by (auto simp: next_io_def split: list.splits)

lemma stateClient_read_world:
  assumes "stateClient_read sid w = (r, w')"
  shows "docs w' = docs w \<and> files w' = files w \<and> alive w' = alive w \<and> nowIso w' = nowIso w"
proof -
  obtain f w1 where n: "next_io w = (f, w1)" by (metis surj_pair)
  from next_io_docs [OF n] assms n show ?thesis
    by (auto simp: stateClient_read_def split: option.splits)
qed

lemma stateClient_read_Returns:
  assumes "stateClient_read sid w = (Returns d, w')"
  shows "docs w sid = Some d"
proof -
  obtain f w1 where n: "next_io w = (f, w1)" by (metis surj_pair)
  from next_io_docs [OF n] assms n show ?thesis
    by (auto simp: stateClient_read_def split: option.splits)
qed

lemma stateClient_read_Throws:
  assumes "stateClient_read sid w = (Throws e, w')"
  shows "\<exists>msg. e = MitmError STATE_READ_FAILED msg \<or> e = MitmError SESSION_NOT_FOUND msg"
proof -
  obtain f w1 where n: "next_io w = (f, w1)" by (metis surj_pair)
  from assms n show ?thesis
    by (auto simp: stateClient_read_def split: option.splits)
qed

lemma stateClient_read_settles: "stateClient_read sid w \<noteq> (NeverSettles, w')"
proof -
  obtain f w1 where n: "next_io w = (f, w1)" by (metis surj_pair)
  then show ?thesis
    by (auto simp: stateClient_read_def split: option.splits)
qed

lemma updateMitm_cases:
  assumes "updateMitm sid patch w = (r, w')"
  shows "(case r of
            Returns updated \<Rightarrow>
              (\<exists>current. docs w sid = Some current
                 \<and> updated = current\<lparr>doc_mitm := Some (merge_mitm (doc_mitm current) patch)\<rparr>
                 \<and> docs w' = (docs w)(sid := Some updated))
          | Throws e \<Rightarrow>
              docs w' = docs w
              \<and> (\<exists>msg. e = MitmError STATE_READ_FAILED msg \<or> e = MitmError SESSION_NOT_FOUND msg
                        \<or> e = MitmError STATE_WRITE_FAILED msg)
          | NeverSettles \<Rightarrow> False)
         \<and> files w' = files w \<and> alive w' = alive w \<and> nowIso w' = nowIso w"
proof -
  obtain r1 w1 where rd: "stateClient_read sid w = (r1, w1)" by (metis surj_pair)
  note w1 = stateClient_read_world [OF rd]
  show ?thesis
  proof (cases r1)
    case (Returns current)
    obtain f w2 where n: "next_io w1 = (f, w2)" by (metis surj_pair)
    note w2 = next_io_docs [OF n]
    have c: "docs w sid = Some current"
      using rd Returns by (simp add: stateClient_read_Returns)
    show ?thesis
      using assms rd Returns n w1 w2 c
      by (cases f) (auto simp: updateMitm_def Let_def logger_def)
  next
    case (Throws e)
    then show ?thesis
      using assms rd w1 stateClient_read_Throws [of sid w e w1]
      by (auto simp: updateMitm_def)
  next
    case NeverSettles
    then show ?thesis using rd stateClient_read_settles by blast
  qed
qed

lemma stateClient_read_quiet:
  "io w = [] \<Longrightarrow> docs w sid = Some d \<Longrightarrow> stateClient_read sid w = (Returns d, w)"
  by (simp add: stateClient_read_def next_io_quiet)

lemma updateMitm_quiet:
  assumes "io w = []" and "docs w sid = Some d"
  shows "updateMitm sid patch w =
           (Returns (d\<lparr>doc_mitm := Some (merge_mitm (doc_mitm d) patch)\<rparr>),
            logger debug ''Updated mitm state''
              (w\<lparr>docs := (docs w)(sid := Some (d\<lparr>doc_mitm := Some (merge_mitm (doc_mitm d) patch)\<rparr>))\<rparr>))"
  using assms by (simp add: updateMitm_def stateClient_read_quiet next_io_quiet Let_def)

lemma updateMitm_io_quiet:
  assumes "io w = []"
  shows "io (snd (updateMitm sid patch w)) = []"
proof (cases "docs w sid")
  case None
  then show ?thesis
    using assms by (simp add: updateMitm_def stateClient_read_def next_io_quiet)
next
  case (Some d)
  show ?thesis
    using assms by (simp add: updateMitm_quiet [OF assms Some] logger_def)
qed





section \<open>Exits, kills and starts\<close>

lemma handleProcessExit_ready:
  assumes "sessions m sid = Some s" and "status s = ready"
  shows "handleProcessExit sid code signal m w =
           (mutate_session sid (\<lambda>s. s\<lparr>status := error\<rparr>) m,
            (logger info ''Mitmdump process exited'' w)
              \<lparr>unawaited := unawaited w @
                 [(sid, no_patch\<lparr>patch_status := Some (Some error),
                                  patch_error := Some (Some (exit_message code signal))\<rparr>)]\<rparr>)"
  using assms by (simp add: handleProcessExit_def Let_def logger_def)

lemma handleProcessExit_other:
  assumes "\<not> (\<exists>s. sessions m sid = Some s \<and> status s = ready)"
  shows "handleProcessExit sid code signal m w = (m, logger info ''Mitmdump process exited'' w)"
proof (cases "sessions m sid")
  case None
  then show ?thesis by (simp add: handleProcessExit_def Let_def)
next
  case (Some s)
  with assms have "status s \<noteq> ready" by simp
  with Some show ?thesis by (simp add: handleProcessExit_def Let_def)
qed

lemma handleProcessExit_world:
  assumes "handleProcessExit sid code signal m w = (m', w')"
  shows "alive w' = alive w \<and> files w' = files w \<and> nowIso w' = nowIso w \<and> docs w' = docs w
       \<and> io w' = io w \<and> fatal w' = fatal w
       \<and> trafficStores m' = trafficStores m \<and> processes m' = processes m"
proof (cases "\<exists>s. sessions m sid = Some s \<and> status s = ready")
  case False
  from handleProcessExit_other [OF False, of code signal w] assms
  have "m' = m" "w' = logger info ''Mitmdump process exited'' w" by simp_all
  then show ?thesis by (simp add: logger_def)
next
  case True
  then obtain s where s: "sessions m sid = Some s" "status s = ready" by blast
  from handleProcessExit_ready [OF s, of code signal w] assms
  have "m' = mutate_session sid (\<lambda>s. s\<lparr>status := error\<rparr>) m"
    and "w' = (logger info ''Mitmdump process exited'' w)
              \<lparr>unawaited := unawaited w @
                 [(sid, no_patch\<lparr>patch_status := Some (Some error),
                                  patch_error := Some (Some (exit_message code signal))\<rparr>)]\<rparr>"
    by simp_all
  then show ?thesis
    by (simp add: mutate_session_def logger_def)
qed

lemma handleProcessExit_sessions:
  assumes "handleProcessExit sid code signal m w = (m', w')"
  shows "sessions m' =
           (if (\<exists>s. sessions m sid = Some s \<and> status s = ready)
            then (sessions m)(sid := map_option (\<lambda>s. s\<lparr>status := error\<rparr>) (sessions m sid))
            else sessions m)"
proof (cases "\<exists>s. sessions m sid = Some s \<and> status s = ready")
  case False
  from handleProcessExit_other [OF False, of code signal w] assms
  have "m' = m" by simp
  then show ?thesis by (simp only: False if_False)
next
  case True
  then obtain s where s: "sessions m sid = Some s" "status s = ready" by blast
  from handleProcessExit_ready [OF s, of code signal w] assms
  have "m' = mutate_session sid (\<lambda>s. s\<lparr>status := error\<rparr>) m" by simp
  then show ?thesis using True by (simp add: mutate_session_def)
qed

lemma child_exit_unfold:
  "child_exit p code signal m w =
     (case processes m p of
        None \<Rightarrow> (m, w\<lparr>alive := alive w - {p}\<rparr>)
      | Some sid \<Rightarrow>
          handleProcessExit sid code signal (m\<lparr>processes := (processes m)(p := None)\<rparr>)
            (w\<lparr>alive := alive w - {p}\<rparr>))"
  by (simp add: child_exit_def Let_def)

lemma child_exit_world:
  assumes "child_exit p code signal m w = (m', w')"
  shows "alive w' = alive w - {p} \<and> files w' = files w \<and> nowIso w' = nowIso w
       \<and> docs w' = docs w \<and> io w' = io w \<and> fatal w' = fatal w
       \<and> trafficStores m' = trafficStores m"
proof (cases "processes m p")
  case None
  with assms have "m' = m" "w' = w\<lparr>alive := alive w - {p}\<rparr>"
    by (simp_all add: child_exit_unfold)
  then show ?thesis by simp
next
  case (Some sid)
  then have "handleProcessExit sid code signal (m\<lparr>processes := (processes m)(p := None)\<rparr>)
               (w\<lparr>alive := alive w - {p}\<rparr>) = (m', w')"
    using assms by (simp add: child_exit_unfold)
  from handleProcessExit_world [OF this] show ?thesis by simp
qed

lemma child_exit_sessions:
  assumes "child_exit p code signal m w = (m', w')"
  shows "dom (sessions m') = dom (sessions m)"
proof (cases "processes m p")
  case None
  with assms have "m' = m" by (simp add: child_exit_unfold)
  then show ?thesis by simp
next
  case (Some sid)
  then have "handleProcessExit sid code signal (m\<lparr>processes := (processes m)(p := None)\<rparr>)
               (w\<lparr>alive := alive w - {p}\<rparr>) = (m', w')"
    using assms by (simp add: child_exit_unfold)
  from handleProcessExit_sessions [OF this]
  have "sessions m' = sessions m
      \<or> sessions m' = (sessions m)(sid := map_option (\<lambda>s. s\<lparr>status := error\<rparr>) (sessions m sid))"
    by (simp split: if_splits)
  then show ?thesis
    by (auto simp: dom_def split: if_splits)
qed

lemma kill_the_process_effect:
  assumes "kill_the_process session m w = (m', w')"
  shows "dom (sessions m') = dom (sessions m) \<and> trafficStores m' = trafficStores m
       \<and> nowIso w' = nowIso w
       \<and> (\<forall>p. pid session = Some p \<and> p \<noteq> 0 \<and> p \<in> alive w \<and> processes m p \<noteq> None
              \<longrightarrow> p \<notin> alive w')"
proof (cases "\<exists>p. pid session = Some p \<and> p \<noteq> 0 \<and> p \<in> alive w")
  case False
  have "kill_the_process session m w = (m, w)"
  proof (cases "pid session")
    case None
    then show ?thesis by (simp add: kill_the_process_def)
  next
    case (Some p)
    with False have "\<not> (p \<noteq> 0 \<and> p \<in> alive w)" by simp
    with Some show ?thesis by (auto simp: kill_the_process_def)
  qed
  with assms have "m' = m" "w' = w" by simp_all
  then show ?thesis using False by auto
next
  case True
  then obtain p where p: "pid session = Some p" "p \<noteq> 0" "p \<in> alive w" by blast
  then have k: "supervisor_kill p m w = (m', w')"
    using assms by (simp add: kill_the_process_def)
  show ?thesis
  proof (cases "processes m p")
    case None
    with k have "m' = m" "w' = logger warn ''Process not found for kill'' w"
      by (simp_all add: supervisor_kill_def)
    then show ?thesis using p None by (simp add: logger_def)
  next
    case (Some sid)
    obtain code signal where "exitOf w p = (code, signal)" by (metis surj_pair)
    then have "child_exit p code signal m w = (m', w')"
      using k Some by (simp add: supervisor_kill_def)
    from child_exit_world [OF this] child_exit_sessions [OF this] show ?thesis
      using p by simp
  qed
qed

lemma close_traffic_store_effect:
  assumes "close_traffic_store sid m w = (m', w')"
  shows "sessions m' = sessions m \<and> trafficStores m' sid = None
       \<and> alive w' = alive w \<and> nowIso w' = nowIso w"
proof (cases "trafficStores m sid")
  case None
  with assms have "m' = m" "w' = w" by (simp_all add: close_traffic_store_def)
  then show ?thesis using None by simp
next
  case (Some ts)
  with assms have "m' = m\<lparr>trafficStores := (trafficStores m)(sid := None)\<rparr>"
    "w' = logger info ''Traffic store closed'' w"
    by (simp_all add: close_traffic_store_def close_def)
  then show ?thesis by (simp add: logger_def)
qed

lemma supervisor_spawn_sessions:
  assumes "supervisor_spawn command sid m w = (r, m', w')" and "r \<noteq> NeverSettles"
  shows "sessions m' = sessions m"
proof (cases "spawns w")
  case Nil
  with assms show ?thesis by (simp add: supervisor_spawn_def)
next
  case (Cons fate rest)
  show ?thesis
  proof (cases fate)
    case (Spawned p)
    with Cons assms show ?thesis by (auto simp: supervisor_spawn_def)
  next
    case (SpawnThrows msg)
    with Cons assms show ?thesis by (auto simp: supervisor_spawn_def)
  next
    case (NoChild msg)
    with Cons assms show ?thesis by (auto simp: supervisor_spawn_def)
  next
    case (ExitedEarly p code)
    with Cons assms show ?thesis
      by (auto simp: supervisor_spawn_def split: prod.splits)
  qed
qed

lemma mutate_session_dom: "dom (sessions (mutate_session sid f m)) = dom (sessions m)"
  by (auto simp: mutate_session_def dom_def split: if_splits)

lemma start_attempt_Throws_sessions:
  assumes "start_attempt cfg sid ctx m w = (Throws e, m2, w2)"
  shows "dom (sessions m2) = dom (sessions m)"
proof -
  obtain r0 ts w1 where i: "initialize (new_TrafficStore (ctx_jsonlPath ctx)) w = (r0, ts, w1)"
    by (metis prod_cases3)
  show ?thesis
  proof (cases r0)
    case (Throws e0)
    with assms i have "m2 = m" by (simp add: start_attempt_def)
    then show ?thesis by simp
  next
    case NeverSettles
    with assms i show ?thesis by (simp add: start_attempt_def)
  next
    case (Returns u)
    let ?m1 = "m\<lparr>trafficStores := (trafficStores m)(sid := Some ts)\<rparr>"
    let ?w2 = "logger info ''Starting mitmdump'' w1"
    obtain r1 ma wa where sp: "supervisor_spawn (mitmdumpPath cfg) sid ?m1 ?w2 = (r1, ma, wa)"
      by (metis prod_cases3)
    show ?thesis
    proof (cases r1)
      case (Throws e1)
      with assms i Returns sp have "m2 = ma" by (simp add: start_attempt_def Let_def)
      moreover have "sessions ma = sessions ?m1"
        using sp Throws by (intro supervisor_spawn_sessions) auto
      ultimately show ?thesis by simp
    next
      case NeverSettles
      with assms i Returns sp show ?thesis by (simp add: start_attempt_def Let_def)
    next
      case (Returns p)
      have sa: "sessions ma = sessions ?m1"
        using sp Returns by (intro supervisor_spawn_sessions) auto
      let ?m3 = "mutate_session sid
                   (\<lambda>s. s\<lparr>pid := Some p, status := ready, startedAt := Some (nowIso wa)\<rparr>) ma"
      obtain r2 wb where u: "updateMitm sid
                               (no_patch\<lparr>patch_status := Some (Some ready),
                                         patch_proxyPort := Some (Some (ctx_port ctx)),
                                         patch_proxyHost := Some (Some (ctx_listenHost ctx)),
                                         patch_pid := Some (Some p),
                                         patch_androidProxyConfig :=
                                           Some (Some \<lparr>cfg_host = ''10.0.2.2'',
                                                       cfg_port = ctx_port ctx\<rparr>)\<rparr>)
                               wa = (r2, wb)"
        by (metis surj_pair)
      have "m2 = ?m3"
        using assms i \<open>r0 = Returns u\<close> sp Returns u
        by (cases r2) (simp_all add: start_attempt_def Let_def)
      then show ?thesis
        using sa by (simp add: mutate_session_dom)
    qed
  qed
qed

lemma start_prepare_Returns:
  assumes "start_prepare cfg input m w = (Returns ctx, m1, w1)"
  shows "\<exists>s. sessions m1 (input_sessionId input) = Some s \<and> status s = starting"
  using assms unfolding start_prepare_def Let_def
  by (auto split: if_splits option.splits prod.splits outcome.splits)

text \<open>What the status tool answers for a session that is in the map.\<close>

lemma statusTool_session:
  assumes "sessions m sid = Some s"
  shows "statusTool J sid m w =
           (case trafficStores m sid of
              None \<Rightarrow>
                (Returns (status_of s
                   \<lparr>totalEntries = 0, totalRequestBytes = 0, totalResponseBytes = 0,
                    entriesLast60s = 0\<rparr>), m, w)
            | Some trafficStore \<Rightarrow>
                (case getStats J trafficStore w of
                   (Returns stats, trafficStore1, w1) \<Rightarrow>
                     (Returns (status_of s stats),
                      m\<lparr>trafficStores := (trafficStores m)(sid := Some trafficStore1)\<rparr>, w1)
                 | (Throws e, trafficStore1, w1) \<Rightarrow>
                     (Throws (as_MitmError e),
                      m\<lparr>trafficStores := (trafficStores m)(sid := Some trafficStore1)\<rparr>, w1)
                 | (NeverSettles, trafficStore1, w1) \<Rightarrow>
                     (NeverSettles,
                      m\<lparr>trafficStores := (trafficStores m)(sid := Some trafficStore1)\<rparr>, w1)))"
  using assms by (simp add: statusTool_def)

lemma no_port_free: "findAvailablePort 8080 8082 fresh_world = Returns None"
  by (simp add: findAvailablePort_def findAvailablePort_from.simps fresh_world_def sample_world_def)

text \<open>
  The update that \<open>handleProcessExit\<close> has started, when it is carried out with the
  document of the session in place and no file-system fault: the document then holds the
  status \<open>error\<close> and the message with the exit code and signal.
\<close>

lemma run_unawaited_publishes:
  assumes "unawaited w = (sid, no_patch\<lparr>patch_status := Some (Some error),
                                        patch_error := Some (Some msg)\<rparr>) # rest"
    and "io w = []" and "docs w sid = Some d"
  shows "\<exists>mi. docs (run_unawaited w) sid = Some (d\<lparr>doc_mitm := Some mi\<rparr>)
            \<and> mitm_status mi = Some error \<and> mitm_error mi = Some msg
            \<and> unawaited (run_unawaited w) = rest"
proof -
  let ?patch = "no_patch\<lparr>patch_status := Some (Some error), patch_error := Some (Some msg)\<rparr>"
  let ?w0 = "w\<lparr>unawaited := rest\<rparr>"
  have q: "io ?w0 = []" and d: "docs ?w0 sid = Some d"
    using assms by simp_all
  let ?d' = "d\<lparr>doc_mitm := Some (merge_mitm (doc_mitm d) ?patch)\<rparr>"
  have "run_unawaited w =
          logger debug ''Updated mitm state'' (?w0\<lparr>docs := (docs ?w0)(sid := Some ?d')\<rparr>)"
    using assms(1) by (simp add: run_unawaited_def updateMitm_quiet [OF q d])
  then have "docs (run_unawaited w) sid = Some ?d'" "unawaited (run_unawaited w) = rest"
    by (simp_all add: logger_def)
  moreover have "mitm_status (merge_mitm (doc_mitm d) ?patch) = Some error
        \<and> mitm_error (merge_mitm (doc_mitm d) ?patch) = Some msg"
    by (simp add: merge_mitm_def Let_def spread_def no_patch_def)
  ultimately show ?thesis by blast
qed

section \<open>Starting\<close>

text \<open>
  C5. When the session map holds a session in status \<open>ready\<close> or \<open>starting\<close> for the
  id, \<open>startProxy\<close> fails with \<open>PROXY_ALREADY_RUNNING\<close> and leaves the manager (its
  sessions, stores and processes) and the world (the shared documents, the processes, the
  pending spawns) as they were.
\<close>

theorem startProxy_already_running:
  assumes "sessions m (input_sessionId input) = Some existing"
    and "status existing = ready \<or> status existing = starting"
  shows "startProxy cfg input m w =
           (Throws (MitmError PROXY_ALREADY_RUNNING
              (''Proxy already running for session: '' @ input_sessionId input)), m, w)"
proof -
  have "start_prepare cfg input m w =
           (Throws (MitmError PROXY_ALREADY_RUNNING
              (''Proxy already running for session: '' @ input_sessionId input)), m, w)"
    unfolding start_prepare_def Let_def using assms by simp
  then show ?thesis
    by (simp add: startProxy_def)
qed

theorem startProxy_already_running_witness:
  "startProxy sample_config
     \<lparr>input_sessionId = ''s1'', input_port = None, input_listenHost = None\<rparr>
     sample_manager running_world
   = (Throws (MitmError PROXY_ALREADY_RUNNING ''Proxy already running for session: s1''),
      sample_manager, running_world)"
proof -
  have s: "sessions sample_manager
             (input_sessionId \<lparr>input_sessionId = ''s1'', input_port = None, input_listenHost = None\<rparr>)
           = Some sample_session"
    by (simp add: sample_manager_def)
  have r: "status sample_session = ready \<or> status sample_session = starting"
    by (simp add: sample_session_def)
  show ?thesis
    using startProxy_already_running [OF s r, of sample_config running_world] by simp
qed

text \<open>
  Runs of \<open>startProxy\<close> that do not reach the update of the \<^verbatim>\<open>catch\<close> clause. When
  the first publication of the state (status \<open>starting\<close>) cannot be written, the call
  fails with \<open>STATE_WRITE_FAILED\<close> and the session stays in the map in status
  \<open>starting\<close>. When the child exits before the start-up delay has elapsed, the promise of
  the spawn is never settled, so the call does not return; the session stays in status
  \<open>starting\<close>. When the executable does not exist, the child has no pid: the server
  process is brought down by the unhandled \<^verbatim>\<open>error\<close> event of the child, the call
  never settles and the shared document still says \<open>starting\<close>. When the range to search
  reaches beyond the ports that exist, the call fails with the \<^verbatim>\<open>RangeError\<close> of the
  probe.
\<close>

lemma startProxy_first_publication_fails:
  "fst (startProxy sample_config
          \<lparr>input_sessionId = ''s2'', input_port = Some 8080, input_listenHost = None\<rparr>
          no_manager
          (fresh_world\<lparr>io := [None, None, None, None, Some ''EACCES: permission denied'']\<rparr>))
     = Throws (MitmError STATE_WRITE_FAILED
         ''Failed to write session state: EACCES: permission denied'')
   \<and> map_option status
         (sessions (fst (snd (startProxy sample_config
            \<lparr>input_sessionId = ''s2'', input_port = Some 8080, input_listenHost = None\<rparr>
            no_manager
            (fresh_world\<lparr>io := [None, None, None, None, Some ''EACCES: permission denied'']\<rparr>))))
          ''s2'') = Some starting"
  by (simp add: startProxy_def start_prepare_def ensureMitmDir_def getMitmDir_def
        path_join_def path_normalize_def
        registerSessionLog_def updateMitm_def stateClient_read_def next_io_def logger_def Let_def
        fresh_world_def sample_world_def no_manager_def sample_config_def fresh_doc_def)

lemma startProxy_child_exits_early:
  "fst (startProxy sample_config
          \<lparr>input_sessionId = ''s2'', input_port = Some 8080, input_listenHost = None\<rparr>
          no_manager (fresh_world\<lparr>spawns := [ExitedEarly 4242 1]\<rparr>))
     = NeverSettles
   \<and> map_option status
         (sessions (fst (snd (startProxy sample_config
            \<lparr>input_sessionId = ''s2'', input_port = Some 8080, input_listenHost = None\<rparr>
            no_manager (fresh_world\<lparr>spawns := [ExitedEarly 4242 1]\<rparr>))))
          ''s2'') = Some starting"
  by (simp add: startProxy_def start_prepare_def start_attempt_def initialize_def fs_access_def
        fs_writeFile_def supervisor_spawn_def child_exit_def handleProcessExit_def
        ensureMitmDir_def getMitmDir_def path_join_def path_normalize_def registerSessionLog_def
        updateMitm_def stateClient_read_def next_io_def logger_def Let_def
        fresh_world_def sample_world_def no_manager_def sample_config_def fresh_doc_def
        new_TrafficStore_def)

lemma startProxy_no_child:
  "fst (startProxy sample_config
          \<lparr>input_sessionId = ''s2'', input_port = Some 8080, input_listenHost = None\<rparr>
          no_manager (fresh_world\<lparr>spawns := [NoChild ''spawn mitmdump ENOENT'']\<rparr>))
     = NeverSettles
   \<and> fatal (snd (snd (startProxy sample_config
          \<lparr>input_sessionId = ''s2'', input_port = Some 8080, input_listenHost = None\<rparr>
          no_manager (fresh_world\<lparr>spawns := [NoChild ''spawn mitmdump ENOENT'']\<rparr>))))
     = Some ''spawn mitmdump ENOENT''
   \<and> map_option (\<lambda>d. map_option mitm_status (doc_mitm d))
         (docs (snd (snd (startProxy sample_config
            \<lparr>input_sessionId = ''s2'', input_port = Some 8080, input_listenHost = None\<rparr>
            no_manager (fresh_world\<lparr>spawns := [NoChild ''spawn mitmdump ENOENT'']\<rparr>))))
          ''s2'') = Some (Some (Some starting))"
  by (simp add: startProxy_def start_prepare_def start_attempt_def initialize_def fs_access_def
        fs_writeFile_def supervisor_spawn_def
        ensureMitmDir_def getMitmDir_def path_join_def path_normalize_def registerSessionLog_def
        updateMitm_def stateClient_read_def next_io_def logger_def Let_def
        merge_mitm_def spread_def no_mitm_def no_patch_def
        fresh_world_def sample_world_def no_manager_def sample_config_def fresh_doc_def
        new_TrafficStore_def)

lemma startProxy_port_out_of_range:
  "startProxy (sample_config\<lparr>portRangeStart := 65535, portRangeEnd := 65540\<rparr>)
     \<lparr>input_sessionId = ''s2'', input_port = None, input_listenHost = None\<rparr>
     no_manager fresh_world
   = (Throws (NodeError
        ''options.port should be >= 0 and < 65536. Received type number (65536).''),
      no_manager, fresh_world)"
proof -
  have r: "stateClient_read ''s2'' fresh_world = (Returns fresh_doc, fresh_world)"
    by (rule stateClient_read_quiet) (simp_all add: fresh_world_def sample_world_def)
  have f: "findAvailablePort 65535 65540 fresh_world
             = Throws (NodeError (bad_port_message 65536))"
    by (simp add: findAvailablePort_def findAvailablePort_from.simps fresh_world_def
          sample_world_def)
  have b: "bad_port_message 65536
             = ''options.port should be >= 0 and < 65536. Received type number (65536).''"
    by (simp add: bad_port_message_def show_nat.simps)
  have "start_prepare (sample_config\<lparr>portRangeStart := 65535, portRangeEnd := 65540\<rparr>)
          \<lparr>input_sessionId = ''s2'', input_port = None, input_listenHost = None\<rparr>
          no_manager fresh_world
        = (Throws (NodeError
             ''options.port should be >= 0 and < 65536. Received type number (65536).''),
           no_manager, fresh_world)"
    unfolding start_prepare_def Let_def
    by (simp add: r f b no_manager_def sample_config_def fresh_doc_def)
  then show ?thesis
    by (simp add: startProxy_def)
qed

text \<open>
  C3, as the code has it. With no free port in the range, \<open>startProxy\<close> fails with
  \<open>PORT_UNAVAILABLE\<close>: no session is created and nothing is published.
\<close>

theorem startProxy_port_unavailable_counterexample:
  "startProxy sample_config
     \<lparr>input_sessionId = ''s2'', input_port = None, input_listenHost = None\<rparr>
     no_manager fresh_world
   = (Throws (MitmError PORT_UNAVAILABLE ''No available port in range 8080-8082''),
      no_manager, fresh_world)"
proof -
  have r: "stateClient_read ''s2'' fresh_world = (Returns fresh_doc, fresh_world)"
    by (rule stateClient_read_quiet) (simp_all add: fresh_world_def sample_world_def)
  have n: "show_nat 8080 = ''8080''" "show_nat 8082 = ''8082''"
    by (simp_all add: show_nat.simps)
  have "start_prepare sample_config
          \<lparr>input_sessionId = ''s2'', input_port = None, input_listenHost = None\<rparr>
          no_manager fresh_world
        = (Throws (MitmError PORT_UNAVAILABLE ''No available port in range 8080-8082''),
           no_manager, fresh_world)"
    unfolding start_prepare_def Let_def
    by (simp add: r n no_port_free no_manager_def sample_config_def fresh_doc_def)
  then show ?thesis
    by (simp add: startProxy_def)
qed

text \<open>
  C3, amended. When the body of the \<^verbatim>\<open>try\<close> block throws (the traffic store cannot be
  initialised, the spawn throws, or the ready state cannot be published) and the server
  process is not brought down, the session is in status \<open>error\<close> when the call ends. Then
  the update of the \<^verbatim>\<open>catch\<close> clause decides: when it returns, the shared document
  holds the status \<open>error\<close> and the message of the cause, and the call fails with
  \<open>MITMDUMP_START_FAILED\<close> carrying that message; when it throws, the shared documents are
  as they were and the call fails with the error of the update, a
  \<open>STATE_READ_FAILED\<close>, \<open>SESSION_NOT_FOUND\<close> or \<open>STATE_WRITE_FAILED\<close>.
\<close>

theorem startProxy_failure_published:
  assumes "start_prepare cfg input m w = (Returns ctx, m1, w1)"
    and "start_attempt cfg (input_sessionId input) ctx m1 w1 = (Throws cause, m2, w2)"
    and "fatal w2 = None"
  shows "(\<exists>s. sessions (fst (snd (startProxy cfg input m w))) (input_sessionId input) = Some s
              \<and> status s = error)
       \<and> (\<forall>d w3. updateMitm (input_sessionId input)
                    (no_patch\<lparr>patch_status := Some (Some error),
                              patch_error := Some (Some (error_message cause))\<rparr>) w2
                    = (Returns d, w3)
            \<longrightarrow> startProxy cfg input m w =
                  (Throws (MitmError MITMDUMP_START_FAILED
                     (''Failed to start mitmdump: '' @ error_message cause)),
                   mutate_session (input_sessionId input) (\<lambda>s. s\<lparr>status := error\<rparr>) m2, w3)
              \<and> docs w3 (input_sessionId input) = Some d
              \<and> (\<exists>mi. doc_mitm d = Some mi \<and> mitm_status mi = Some error
                      \<and> mitm_error mi = Some (error_message cause)))
       \<and> (\<forall>e w3. updateMitm (input_sessionId input)
                    (no_patch\<lparr>patch_status := Some (Some error),
                              patch_error := Some (Some (error_message cause))\<rparr>) w2
                    = (Throws e, w3)
            \<longrightarrow> startProxy cfg input m w =
                  (Throws e,
                   mutate_session (input_sessionId input) (\<lambda>s. s\<lparr>status := error\<rparr>) m2, w3)
              \<and> docs w3 = docs w2
              \<and> (\<exists>msg. e = MitmError STATE_READ_FAILED msg \<or> e = MitmError SESSION_NOT_FOUND msg
                       \<or> e = MitmError STATE_WRITE_FAILED msg))"
proof -
  let ?sid = "input_sessionId input"
  let ?patch = "no_patch\<lparr>patch_status := Some (Some error),
                         patch_error := Some (Some (error_message cause))\<rparr>"
  let ?m3 = "mutate_session ?sid (\<lambda>s. s\<lparr>status := error\<rparr>) m2"
  obtain r wu where u: "updateMitm ?sid ?patch w2 = (r, wu)"
    by (metis surj_pair)
  have sp: "startProxy cfg input m w =
              (case r of
                 Throws e \<Rightarrow> (Throws e, ?m3, wu)
               | NeverSettles \<Rightarrow> (NeverSettles, ?m3, wu)
               | Returns _ \<Rightarrow>
                   (Throws (MitmError MITMDUMP_START_FAILED
                      (''Failed to start mitmdump: '' @ error_message cause)), ?m3, wu))"
    using assms u by (simp add: startProxy_def Let_def)
  have "?sid \<in> dom (sessions m1)"
    using start_prepare_Returns [OF assms(1)] by auto
  then have "?sid \<in> dom (sessions m2)"
    using start_attempt_Throws_sessions [OF assms(2)] by simp
  then obtain s2 where "sessions m2 ?sid = Some s2" by auto
  then have b: "\<exists>s. sessions ?m3 ?sid = Some s \<and> status s = error"
    by (simp add: mutate_session_def)
  have "fst (snd (startProxy cfg input m w)) = ?m3"
    unfolding sp by (cases r) simp_all
  then have first: "\<exists>s. sessions (fst (snd (startProxy cfg input m w))) ?sid = Some s
                       \<and> status s = error"
    using b by simp
  have second: "startProxy cfg input m w =
                  (Throws (MitmError MITMDUMP_START_FAILED
                     (''Failed to start mitmdump: '' @ error_message cause)), ?m3, w3)
              \<and> docs w3 ?sid = Some d
              \<and> (\<exists>mi. doc_mitm d = Some mi \<and> mitm_status mi = Some error
                      \<and> mitm_error mi = Some (error_message cause))"
    if h: "updateMitm ?sid ?patch w2 = (Returns d, w3)" for d w3
  proof -
    from h u have r: "r = Returns d" "wu = w3" by simp_all
    from updateMitm_cases [OF h] obtain current where
      c: "d = current\<lparr>doc_mitm := Some (merge_mitm (doc_mitm current) ?patch)\<rparr>"
      and dd: "docs w3 = (docs w2)(?sid := Some d)"
      by auto
    have e: "\<exists>mi. doc_mitm d = Some mi \<and> mitm_status mi = Some error
                 \<and> mitm_error mi = Some (error_message cause)"
      by (simp add: c merge_mitm_def Let_def spread_def no_patch_def)
    show ?thesis
      using sp r dd e by simp
  qed
  have third: "startProxy cfg input m w = (Throws e, ?m3, w3)
              \<and> docs w3 = docs w2
              \<and> (\<exists>msg. e = MitmError STATE_READ_FAILED msg \<or> e = MitmError SESSION_NOT_FOUND msg
                       \<or> e = MitmError STATE_WRITE_FAILED msg)"
    if h: "updateMitm ?sid ?patch w2 = (Throws e, w3)" for e w3
  proof -
    from h u have r: "r = Throws e" "wu = w3" by simp_all
    from updateMitm_cases [OF h] show ?thesis
      using sp r by auto
  qed
  show ?thesis
    using first second third by blast
qed

theorem startProxy_failure_published_witness:
  "fst (startProxy sample_config
          \<lparr>input_sessionId = ''s2'', input_port = Some 8080, input_listenHost = None\<rparr>
          no_manager failing_spawn_world)
     = Throws (MitmError MITMDUMP_START_FAILED ''Failed to start mitmdump: spawn E2BIG'')
   \<and> (\<exists>s. sessions (fst (snd (startProxy sample_config
                \<lparr>input_sessionId = ''s2'', input_port = Some 8080, input_listenHost = None\<rparr>
                no_manager failing_spawn_world))) ''s2'' = Some s \<and> status s = error)
   \<and> (\<exists>d mi. docs (snd (snd (startProxy sample_config
                \<lparr>input_sessionId = ''s2'', input_port = Some 8080, input_listenHost = None\<rparr>
                no_manager failing_spawn_world))) ''s2'' = Some d
          \<and> doc_mitm d = Some mi \<and> mitm_status mi = Some error
          \<and> mitm_error mi = Some ''spawn E2BIG'')"
proof -
  let ?input = "\<lparr>input_sessionId = ''s2'', input_port = Some 8080, input_listenHost = None\<rparr>"
  let ?ctx = "\<lparr>ctx_port = 8080, ctx_listenHost = ''0.0.0.0'',
              ctx_jsonlPath = ''/data/sessions/s2/mitm/traffic.jsonl''\<rparr>"
  let ?p = "start_prepare sample_config ?input no_manager failing_spawn_world"
  let ?m1 = "fst (snd ?p)"
  let ?w1 = "snd (snd ?p)"
  let ?a = "start_attempt sample_config ''s2'' ?ctx ?m1 ?w1"
  let ?m2 = "fst (snd ?a)"
  let ?w2 = "snd (snd ?a)"
  let ?cause = "NodeError ''spawn E2BIG''"
  let ?patch = "no_patch\<lparr>patch_status := Some (Some error),
                         patch_error := Some (Some (error_message ?cause))\<rparr>"
  let ?u = "updateMitm ''s2'' ?patch ?w2"
  note defs = start_prepare_def start_attempt_def initialize_def fs_access_def fs_writeFile_def
    supervisor_spawn_def ensureMitmDir_def getMitmDir_def path_join_def path_normalize_def
    registerSessionLog_def
    updateMitm_def stateClient_read_def next_io_def logger_def Let_def
    failing_spawn_world_def fresh_world_def sample_world_def no_manager_def sample_config_def
    fresh_doc_def new_TrafficStore_def
  have "fst ?p = Returns ?ctx"
    by (simp add: defs)
  then have p: "?p = (Returns ?ctx, ?m1, ?w1)"
    by (simp add: prod_eq_iff)
  have "fst ?a = Throws ?cause"
    by (simp add: defs)
  then have a: "start_attempt sample_config (input_sessionId ?input) ?ctx ?m1 ?w1
                  = (Throws ?cause, ?m2, ?w2)"
    by (simp add: prod_eq_iff)
  have f: "fatal ?w2 = None"
    by (simp add: defs)
  have "\<exists>d. fst ?u = Returns d"
    by (simp add: defs)
  then obtain d where "fst ?u = Returns d" by blast
  then have u: "updateMitm (input_sessionId ?input) ?patch ?w2 = (Returns d, snd ?u)"
    by (simp add: prod_eq_iff)
  from startProxy_failure_published [OF p a f]
  have 1: "\<exists>s. sessions (fst (snd (startProxy sample_config ?input no_manager failing_spawn_world)))
                 (input_sessionId ?input) = Some s \<and> status s = error"
    and 2: "\<And>d w3. updateMitm (input_sessionId ?input) ?patch ?w2 = (Returns d, w3)
             \<Longrightarrow> startProxy sample_config ?input no_manager failing_spawn_world =
                  (Throws (MitmError MITMDUMP_START_FAILED
                     (''Failed to start mitmdump: '' @ error_message ?cause)),
                   mutate_session (input_sessionId ?input) (\<lambda>s. s\<lparr>status := error\<rparr>) ?m2, w3)
               \<and> docs w3 (input_sessionId ?input) = Some d
               \<and> (\<exists>mi. doc_mitm d = Some mi \<and> mitm_status mi = Some error
                      \<and> mitm_error mi = Some (error_message ?cause))"
    by blast+
  from 2 [OF u] 1 show ?thesis
    by auto
qed

section \<open>Stopping\<close>

text \<open>
  C10, as the code has it. The update of the shared state reads the document before it
  writes it: when the read fails, \<open>stopProxy\<close> throws \<open>STATE_READ_FAILED\<close>, which is
  neither \<open>STATE_WRITE_FAILED\<close> nor \<open>SESSION_NOT_FOUND\<close>, with the process killed, the
  store removed and the session left in the map in status \<open>stopped\<close>.
\<close>

theorem stopProxy_read_failure_counterexample:
  "fst (stopProxy ''s1'' sample_manager (running_world\<lparr>io := [Some ''EIO: i/o error, read'']\<rparr>))
     = Throws (MitmError STATE_READ_FAILED
         ''Failed to read session state: EIO: i/o error, read'')
   \<and> STATE_READ_FAILED \<noteq> STATE_WRITE_FAILED \<and> STATE_READ_FAILED \<noteq> SESSION_NOT_FOUND
   \<and> map_option status
       (sessions (fst (snd (stopProxy ''s1'' sample_manager
          (running_world\<lparr>io := [Some ''EIO: i/o error, read'']\<rparr>)))) ''s1'') = Some stopped
   \<and> trafficStores (fst (snd (stopProxy ''s1'' sample_manager
          (running_world\<lparr>io := [Some ''EIO: i/o error, read'']\<rparr>)))) ''s1'' = None
   \<and> 4242 \<notin> alive (snd (snd (stopProxy ''s1'' sample_manager
          (running_world\<lparr>io := [Some ''EIO: i/o error, read'']\<rparr>))))"
  by (simp add: stopProxy_def kill_the_process_def supervisor_kill_def child_exit_def
        handleProcessExit_def updateMitm_def stateClient_read_def next_io_def logger_def
        mutate_session_def close_traffic_store_def close_def Let_def
        running_world_def sample_world_def sample_manager_def
        sample_session_def sample_doc_def new_TrafficStore_def)

text \<open>
  C10, amended. When the session is in the map and the update of the shared state that
  \<open>stopProxy\<close> performs throws, \<open>stopProxy\<close> throws the same error
  (\<open>STATE_WRITE_FAILED\<close>, \<open>SESSION_NOT_FOUND\<close> or, when the read fails,
  \<open>STATE_READ_FAILED\<close>) after the process it tracked has been killed and the traffic
  store removed; the session is still in the map, in status \<open>stopped\<close> with
  \<open>stoppedAt\<close> set.
\<close>

theorem stopProxy_not_atomic:
  assumes "sessions m sid = Some session"
    and "kill_the_process session m (logger info ''Stopping proxy'' w) = (m1, w1)"
    and "close_traffic_store sid m1 w1 = (m2, w2)"
    and "updateMitm sid (no_patch\<lparr>patch_status := Some (Some stopped), patch_pid := Some None\<rparr>) w2
           = (Throws e, w3)"
  shows "stopProxy sid m w =
           (Throws e,
            mutate_session sid (\<lambda>s. s\<lparr>status := stopped, stoppedAt := Some (nowIso w2)\<rparr>) m2,
            w3)
       \<and> (\<exists>s3. sessions (mutate_session sid
                    (\<lambda>s. s\<lparr>status := stopped, stoppedAt := Some (nowIso w2)\<rparr>) m2) sid = Some s3
               \<and> status s3 = stopped \<and> stoppedAt s3 = Some (nowIso w))
       \<and> trafficStores (mutate_session sid
             (\<lambda>s. s\<lparr>status := stopped, stoppedAt := Some (nowIso w2)\<rparr>) m2) sid = None
       \<and> (\<forall>p. pid session = Some p \<and> p \<noteq> 0 \<and> p \<in> alive w \<and> processes m p \<noteq> None
              \<longrightarrow> p \<notin> alive w3)
       \<and> (\<exists>msg. e = MitmError STATE_WRITE_FAILED msg \<or> e = MitmError SESSION_NOT_FOUND msg
                \<or> e = MitmError STATE_READ_FAILED msg)"
proof -
  let ?m3 = "mutate_session sid (\<lambda>s. s\<lparr>status := stopped, stoppedAt := Some (nowIso w2)\<rparr>) m2"
  have stop: "stopProxy sid m w = (Throws e, ?m3, w3)"
    unfolding stopProxy_def Let_def using assms by simp
  note k = kill_the_process_effect [OF assms(2)]
  note c = close_traffic_store_effect [OF assms(3)]
  note u = updateMitm_cases [OF assms(4)]
  have "sid \<in> dom (sessions m1)" using k assms(1) by auto
  then obtain s2 where s2: "sessions m2 sid = Some s2" using c by auto
  have n: "nowIso w2 = nowIso w" using k c by (simp add: logger_def)
  have a: "alive w3 = alive w1" using c u by simp
  have t: "trafficStores ?m3 sid = None" using c by (simp add: mutate_session_def)
  have "sessions ?m3 sid = Some (s2\<lparr>status := stopped, stoppedAt := Some (nowIso w)\<rparr>)"
    using s2 n by (simp add: mutate_session_def)
  then have ex: "\<exists>s3. sessions ?m3 sid = Some s3 \<and> status s3 = stopped
                    \<and> stoppedAt s3 = Some (nowIso w)"
    by simp
  have dead: "\<forall>p. pid session = Some p \<and> p \<noteq> 0 \<and> p \<in> alive w \<and> processes m p \<noteq> None
              \<longrightarrow> p \<notin> alive w3"
    using k a by (simp add: logger_def)
  have code: "\<exists>msg. e = MitmError STATE_WRITE_FAILED msg \<or> e = MitmError SESSION_NOT_FOUND msg
                \<or> e = MitmError STATE_READ_FAILED msg"
    using u by auto
  show ?thesis
    using stop ex t dead code by blast
qed

theorem stopProxy_not_atomic_witness:
  "fst (stopProxy ''s1'' sample_manager faulty_world)
     = Throws (MitmError STATE_WRITE_FAILED
         ''Failed to write session state: EACCES: permission denied'')
   \<and> (\<exists>s3. sessions (fst (snd (stopProxy ''s1'' sample_manager faulty_world))) ''s1'' = Some s3
           \<and> status s3 = stopped \<and> stoppedAt s3 = Some ''2024-01-01T00:10:00.000Z'')
   \<and> trafficStores (fst (snd (stopProxy ''s1'' sample_manager faulty_world))) ''s1'' = None
   \<and> 4242 \<notin> alive (snd (snd (stopProxy ''s1'' sample_manager faulty_world)))"
proof -
  let ?w0 = "logger info ''Stopping proxy'' faulty_world"
  let ?k = "kill_the_process sample_session sample_manager ?w0"
  let ?c = "close_traffic_store ''s1'' (fst ?k) (snd ?k)"
  let ?patch = "no_patch\<lparr>patch_status := Some (Some stopped), patch_pid := Some None\<rparr>"
  let ?u = "updateMitm ''s1'' ?patch (snd ?c)"
  let ?e = "MitmError STATE_WRITE_FAILED ''Failed to write session state: EACCES: permission denied''"
  have s: "sessions sample_manager ''s1'' = Some sample_session"
    by (simp add: sample_manager_def)
  have k: "?k = (fst ?k, snd ?k)" by simp
  have c: "?c = (fst ?c, snd ?c)" by simp
  have "fst ?u = Throws ?e"
    by (simp add: kill_the_process_def supervisor_kill_def child_exit_def handleProcessExit_def
          updateMitm_def stateClient_read_def next_io_def logger_def mutate_session_def
          close_traffic_store_def close_def Let_def
          faulty_world_def running_world_def sample_world_def sample_manager_def
          sample_session_def sample_doc_def new_TrafficStore_def)
  then have u: "?u = (Throws ?e, snd ?u)"
    by (simp add: prod_eq_iff)
  have t: "nowIso faulty_world = ''2024-01-01T00:10:00.000Z''"
    "pid sample_session = Some 4242" "4242 \<in> alive faulty_world"
    "processes sample_manager 4242 \<noteq> None"
    by (simp_all add: faulty_world_def running_world_def sample_session_def sample_manager_def)
  show ?thesis
    using stopProxy_not_atomic [OF s k c u] t by simp
qed

section \<open>Crash reconciliation\<close>

text \<open>
  C7, as the code has it. After the capture process of a ready session has exited, the
  status tool answers with the session id, the status \<open>error\<close>, the port, the host, the
  pid, the start time and the traffic statistics: the same answer whatever the exit code
  and signal were, with no message in it.
\<close>

theorem status_without_exit_message_counterexample:
  "fst (statusTool (sample_JSON []) ''s1''
          (fst (child_exit 4242 (Some 1) None sample_manager running_world))
          (snd (child_exit 4242 (Some 1) None sample_manager running_world)))
     = Returns \<lparr>resp_sessionId = ''s1'', resp_proxyStatus = error, resp_proxyPort = 8080,
                resp_proxyHost = ''0.0.0.0'', resp_pid = Some 4242,
                resp_startedAt = Some ''2024-01-01T00:00:05.000Z'',
                resp_stats = \<lparr>totalEntries = 0, totalRequestBytes = 0,
                              totalResponseBytes = 0, entriesLast60s = 0\<rparr>\<rparr>
   \<and> fst (statusTool (sample_JSON []) ''s1''
          (fst (child_exit 4242 (Some 2) (Some ''SIGKILL'') sample_manager running_world))
          (snd (child_exit 4242 (Some 2) (Some ''SIGKILL'') sample_manager running_world)))
     = Returns \<lparr>resp_sessionId = ''s1'', resp_proxyStatus = error, resp_proxyPort = 8080,
                resp_proxyHost = ''0.0.0.0'', resp_pid = Some 4242,
                resp_startedAt = Some ''2024-01-01T00:00:05.000Z'',
                resp_stats = \<lparr>totalEntries = 0, totalRequestBytes = 0,
                              totalResponseBytes = 0, entriesLast60s = 0\<rparr>\<rparr>"
  by (simp add: child_exit_def handleProcessExit_def
        next_io_def logger_def mutate_session_def statusTool_def getStats_def reloadEntries_def
        fs_stat_size_def status_of_def Let_def
        running_world_def sample_world_def sample_manager_def sample_session_def sample_doc_def
        new_TrafficStore_def)

text \<open>
  C7, amended. When the capture process of a session in status \<open>ready\<close> exits, the
  session is in status \<open>error\<close>, no stop having been called, and the exit handler has
  started, without awaiting it, the update that is to put the status \<open>error\<close> and the
  message with the exit code and signal into the shared document. A status call that
  follows, in whatever state the files then are, and that succeeds in reading the traffic
  statistics (or finds no store) answers with the status \<open>error\<close> and the other fields
  of the session as they were; the answer has no field for a message.
\<close>

theorem crash_sets_error_status:
  assumes "sessions m sid = Some s" and "status s = ready" and "processes m p = Some sid"
  shows "sessions (fst (child_exit p code signal m w)) sid = Some (s\<lparr>status := error\<rparr>)
       \<and> unawaited (snd (child_exit p code signal m w)) =
           unawaited w @
             [(sid, no_patch\<lparr>patch_status := Some (Some error),
                              patch_error := Some (Some (exit_message code signal))\<rparr>)]
       \<and> (\<forall>w2. trafficStores m sid = None \<longrightarrow>
             statusTool J sid (fst (child_exit p code signal m w)) w2 =
               (Returns (status_of (s\<lparr>status := error\<rparr>)
                  \<lparr>totalEntries = 0, totalRequestBytes = 0, totalResponseBytes = 0,
                   entriesLast60s = 0\<rparr>),
                fst (child_exit p code signal m w), w2))
       \<and> (\<forall>w2 trafficStore stats trafficStore1 w3.
             trafficStores m sid = Some trafficStore
             \<and> getStats J trafficStore w2 = (Returns stats, trafficStore1, w3) \<longrightarrow>
             statusTool J sid (fst (child_exit p code signal m w)) w2 =
               (Returns (status_of (s\<lparr>status := error\<rparr>) stats),
                (fst (child_exit p code signal m w))
                  \<lparr>trafficStores :=
                     (trafficStores (fst (child_exit p code signal m w)))
                       (sid := Some trafficStore1)\<rparr>, w3))"
proof -
  let ?m0 = "m\<lparr>processes := (processes m)(p := None)\<rparr>"
  let ?w0 = "w\<lparr>alive := alive w - {p}\<rparr>"
  let ?patch = "no_patch\<lparr>patch_status := Some (Some error),
                         patch_error := Some (Some (exit_message code signal))\<rparr>"
  let ?m' = "mutate_session sid (\<lambda>s. s\<lparr>status := error\<rparr>) ?m0"
  let ?w' = "(logger info ''Mitmdump process exited'' ?w0)
               \<lparr>unawaited := unawaited ?w0 @ [(sid, ?patch)]\<rparr>"
  have s0: "sessions ?m0 sid = Some s"
    using assms(1) by simp
  have h: "handleProcessExit sid code signal ?m0 ?w0 = (?m', ?w')"
    by (rule handleProcessExit_ready [OF s0 assms(2)])
  have c: "child_exit p code signal m w = (?m', ?w')"
    using assms(3) h by (simp add: child_exit_unfold)
  have a: "sessions ?m' sid = Some (s\<lparr>status := error\<rparr>)"
    using assms(1) by (simp add: mutate_session_def)
  have t: "trafficStores ?m' = trafficStores m"
    by (simp add: mutate_session_def)
  have q: "unawaited ?w' = unawaited w @ [(sid, ?patch)]"
    by simp
  note st = statusTool_session [OF a, of J]
  have n: "statusTool J sid ?m' w2 =
             (Returns (status_of (s\<lparr>status := error\<rparr>)
                \<lparr>totalEntries = 0, totalRequestBytes = 0, totalResponseBytes = 0,
                 entriesLast60s = 0\<rparr>), ?m', w2)"
    if "trafficStores m sid = None" for w2
    using that by (simp add: st t)
  have g: "statusTool J sid ?m' w2 =
             (Returns (status_of (s\<lparr>status := error\<rparr>) stats),
              ?m'\<lparr>trafficStores := (trafficStores ?m')(sid := Some trafficStore1)\<rparr>, w3)"
    if "trafficStores m sid = Some trafficStore"
      and "getStats J trafficStore w2 = (Returns stats, trafficStore1, w3)"
    for w2 trafficStore stats trafficStore1 w3
    using that by (simp add: st t)
  show ?thesis
    unfolding c fst_conv snd_conv using a q n g by blast
qed

theorem crash_sets_error_status_witness:
  "sessions (fst (child_exit 4242 (Some 1) None sample_manager running_world)) ''s1''
     = Some (sample_session\<lparr>status := error\<rparr>)
   \<and> unawaited (snd (child_exit 4242 (Some 1) None sample_manager running_world))
     = [(''s1'', no_patch\<lparr>patch_status := Some (Some error),
                           patch_error := Some (Some ''Process exited with code 1, signal null'')\<rparr>)]
   \<and> (\<exists>m' w'.
         statusTool (sample_JSON []) ''s1''
           (fst (child_exit 4242 (Some 1) None sample_manager running_world))
           (snd (child_exit 4242 (Some 1) None sample_manager running_world))
           = (Returns (status_of (sample_session\<lparr>status := error\<rparr>)
                \<lparr>totalEntries = 0, totalRequestBytes = 0, totalResponseBytes = 0,
                 entriesLast60s = 0\<rparr>), m', w'))"
proof -
  let ?w' = "snd (child_exit 4242 (Some 1) None sample_manager running_world)"
  let ?ts = "new_TrafficStore ''/data/sessions/s1/mitm/traffic.jsonl''"
  have s: "sessions sample_manager ''s1'' = Some sample_session"
    and p: "processes sample_manager 4242 = Some ''s1''"
    and t: "trafficStores sample_manager ''s1'' = Some ?ts"
    by (simp_all add: sample_manager_def)
  have r: "status sample_session = ready"
    by (simp add: sample_session_def)
  have e: "exit_message (Some 1) None = ''Process exited with code 1, signal null''"
    by (simp add: exit_message_def show_int_def show_nat.simps)
  have u: "unawaited running_world = []"
    by (simp add: running_world_def sample_world_def)
  have "io ?w' = []" "files ?w' (jsonlPath ?ts) = None"
    by (simp_all add: child_exit_def handleProcessExit_def Let_def logger_def
          running_world_def sample_world_def sample_manager_def sample_session_def)
  then have "reloadEntries (sample_JSON []) ?ts ?w' = (Returns (), ?ts, ?w')"
    by (rule reloadEntries_missing)
  then have g: "getStats (sample_JSON []) ?ts ?w' =
                  (Returns \<lparr>totalEntries = 0, totalRequestBytes = 0, totalResponseBytes = 0,
                            entriesLast60s = 0\<rparr>, ?ts, ?w')"
    by (simp add: getStats_def Let_def new_TrafficStore_def)
  show ?thesis
    using crash_sets_error_status [OF s r p, of "Some 1" None running_world "sample_JSON []"]
      t g
    unfolding e u by auto
qed

end
